theory Spec2Isabelle
  imports Main
begin

section \<open>Strings as the program uses them\<close>

text \<open>
  A JavaScript string is modelled as a \<^typ>\<open>string\<close> holding its characters in UTF-8.
  On well-formed strings the operations the program uses (concatenation, equality, the
  test for the empty string, \<^verbatim>\<open>includes\<close>, \<^verbatim>\<open>split(' ')\<close> and \<^verbatim>\<open>join(' ')\<close>) agree with their
  counterparts on the encoded strings. \<^verbatim>\<open>toLowerCase()\<close> is a built-in of the runtime, not
  code of this repository: it is a parameter of the model (the field \<open>toLowerCase\<close> of
  \<open>World\<close> below), and every general statement holds for whatever function it is.
\<close>

text \<open>\<^verbatim>\<open>s.startsWith(t)\<close> and \<^verbatim>\<open>s.includes(t)\<close>: \<open>t\<close> occurs in \<open>s\<close> as a contiguous run.\<close>

fun startsWith :: "string \<Rightarrow> string \<Rightarrow> bool" where
  "startsWith s [] = True"
| "startsWith [] (d # t) = False"
| "startsWith (c # s) (d # t) = (c = d \<and> startsWith s t)"

fun includesStr :: "string \<Rightarrow> string \<Rightarrow> bool" where
  "includesStr [] t = (t = [])"
| "includesStr (c # s) t = (startsWith (c # s) t \<or> includesStr s t)"

text \<open>\<^verbatim>\<open>xs.join(' ')\<close>.\<close>

fun joinSpace :: "string list \<Rightarrow> string" where
  "joinSpace [] = []"
| "joinSpace [x] = x"
| "joinSpace (x # y # ys) = x @ '' '' @ joinSpace (y # ys)"

text \<open>\<^verbatim>\<open>s.split(' ')\<close>: the pieces between blanks, empty pieces included.\<close>

fun splitSpace :: "string \<Rightarrow> string list" where
  "splitSpace [] = [[]]"
| "splitSpace (c # cs) =
     (if c = CHR '' '' then [] # splitSpace cs
      else (case splitSpace cs of
              [] \<Rightarrow> [[c]]
            | w # ws \<Rightarrow> (c # w) # ws))"

text \<open>Decimal rendering of a non-negative integer, as \<^verbatim>\<open>toString()\<close> and template
  literals produce it.\<close>

fun showNat :: "nat \<Rightarrow> string" where
  "showNat n =
     (if n < 10 then [''0123456789'' ! n]
      else showNat (n div 10) @ [''0123456789'' ! (n mod 10)])"

declare showNat.simps [simp del]

section \<open>Data model (types.ts)\<close>

record ItemPart =
  part_id :: string
  part_name :: string
  part_description :: string
  part_x :: int
  part_y :: int

record ItemImages =
  assembled :: "string option"
  cutaway :: "string option"
  exploded :: string

record ItemCharacteristic =
  label :: string
  val :: string

text \<open>
  An \<^verbatim>\<open>ExploredItem\<close> is a node of the exploration tree. The non-recursive fields are
  kept in a record and the node pairs them with its children, so that the source's
  \<^verbatim>\<open>{...root, children: cs}\<close> is \<open>Item (info root) cs\<close>. The optional \<^verbatim>\<open>children\<close>
  field is a list: every function below treats an absent list and an empty one alike
  (\<^verbatim>\<open>root.children || []\<close>, a loop or \<^verbatim>\<open>map\<close> over nothing, \<^verbatim>\<open>children?.find\<close>).
\<close>

record ItemInfo =
  item_id :: string
  rootId :: string
  name :: string
  category :: string
  description :: string
  images :: "ItemImages option"
  parts :: "ItemPart list"
  facts :: "string list option"
  characteristics :: "ItemCharacteristic list option"
  parentId :: "string option"
  depth :: int
  timestamp :: nat

datatype ExploredItem = Item (info: ItemInfo) (children: "ExploredItem list")

abbreviation idOf :: "ExploredItem \<Rightarrow> string" where
  "idOf i \<equiv> item_id (info i)"

abbreviation nameOf :: "ExploredItem \<Rightarrow> string" where
  "nameOf i \<equiv> name (info i)"

datatype Stage = idle | analyzing | rendering_assembled | rendering_details | scanning
  | complete | error

record GenerationStatus =
  isGenerating :: bool
  stage :: Stage
  message :: "string option"
  currentFacts :: "string list option"

datatype PerspectiveType = General | Industrial | Scientific | Conceptual
datatype StyleType = Default | Schematic | Drawing
datatype DetailLevelType = Simple | Normal | Detailed
datatype Mode = fast | full

record GenerationOptions =
  perspective :: PerspectiveType
  style :: StyleType
  detailLevel :: DetailLevelType

record PartialOptions =
  perspective_opt :: "PerspectiveType option"
  style_opt :: "StyleType option"
  detailLevel_opt :: "DetailLevelType option"

record AppState =
  currentItem :: "ExploredItem option"
  history :: "ExploredItem list"
  collection :: "ExploredItem list"
  status :: GenerationStatus
  generationMode :: Mode
  generationOptions :: GenerationOptions
  isConfigured :: bool
  isOffline :: bool

datatype ExploreAction =
    UPDATE_SESSION ExploredItem "ExploredItem list" ExploredItem
  | INIT_COLLECTION "ExploredItem list"
  | REMOVE_FROM_COLLECTION string
  | LOAD_FROM_COLLECTION ExploredItem
  | SET_STATUS GenerationStatus
  | NAVIGATE_TO string
  | SET_GENERATION_MODE Mode
  | SET_GENERATION_OPTIONS PartialOptions
  | CONFIGURE_ACCESS bool
  | RESET
  | RECONFIGURE

section \<open>Tree store (ExplorerContext)\<close>

text \<open>
  \<^verbatim>\<open>findPathToNode\<close>: depth-first search for the first node with the target id. The
  \<^verbatim>\<open>for\<close> loop over the children, which returns \<^verbatim>\<open>[root, ...path]\<close> at the first child
  that has a path, is \<open>findPathIn\<close>.
\<close>

fun findPathToNode :: "ExploredItem \<Rightarrow> string \<Rightarrow> ExploredItem list option"
  and findPathIn :: "ExploredItem \<Rightarrow> ExploredItem list \<Rightarrow> string \<Rightarrow> ExploredItem list option"
where
  "findPathToNode (Item f cs) targetId =
     (if item_id f = targetId then Some [Item f cs]
      else findPathIn (Item f cs) cs targetId)"
| "findPathIn root [] targetId = None"
| "findPathIn root (child # rest) targetId =
     (case findPathToNode child targetId of
        Some path \<Rightarrow> Some (root # path)
      | None \<Rightarrow> findPathIn root rest targetId)"

text \<open>\<^verbatim>\<open>updateItemInTree\<close>: attach \<open>newChild\<close> under the node with id \<open>targetId\<close>.\<close>

fun updateItemInTree :: "ExploredItem \<Rightarrow> string \<Rightarrow> ExploredItem \<Rightarrow> ExploredItem" where
  "updateItemInTree (Item f cs) targetId newChild =
     (if item_id f = targetId then
        (let existingChildren = cs;
             exists = list_ex (\<lambda>c. idOf c = idOf newChild) existingChildren
         in Item f (if exists then existingChildren else existingChildren @ [newChild]))
      else Item f (map (\<lambda>child. updateItemInTree child targetId newChild) cs))"

text \<open>\<^verbatim>\<open>xs.findIndex(p)\<close>; the source's \<^verbatim>\<open>-1\<close> is \<open>None\<close>.\<close>

fun findIndex :: "('a \<Rightarrow> bool) \<Rightarrow> 'a list \<Rightarrow> nat option" where
  "findIndex p [] = None"
| "findIndex p (x # xs) =
     (if p x then Some 0
      else (case findIndex p xs of None \<Rightarrow> None | Some i \<Rightarrow> Some (Suc i)))"

text \<open>\<^verbatim>\<open>xs.find(p)\<close>; the source's \<^verbatim>\<open>undefined\<close> is \<open>None\<close>.\<close>

fun findFirst :: "('a \<Rightarrow> bool) \<Rightarrow> 'a list \<Rightarrow> 'a option" where
  "findFirst p [] = None"
| "findFirst p (x # xs) = (if p x then Some x else findFirst p xs)"

section \<open>Session state machine (the reducer)\<close>

definition idleStatus :: GenerationStatus where
  "idleStatus =
     \<lparr>isGenerating = False, stage = idle, message = None, currentFacts = None\<rparr>"

definition initialState :: AppState where
  "initialState =
     \<lparr>currentItem = None,
      history = [],
      collection = [],
      status = idleStatus,
      generationMode = full,
      generationOptions = \<lparr>perspective = General, style = Default, detailLevel = Normal\<rparr>,
      isConfigured = False,
      isOffline = False\<rparr>"

text \<open>\<^verbatim>\<open>{ ...state.generationOptions, ...action.payload }\<close>: the fields present in the
  payload win.\<close>

definition mergeOptions :: "GenerationOptions \<Rightarrow> PartialOptions \<Rightarrow> GenerationOptions" where
  "mergeOptions g p =
     \<lparr>perspective = (case perspective_opt p of None \<Rightarrow> perspective g | Some v \<Rightarrow> v),
      style = (case style_opt p of None \<Rightarrow> style g | Some v \<Rightarrow> v),
      detailLevel = (case detailLevel_opt p of None \<Rightarrow> detailLevel g | Some v \<Rightarrow> v)\<rparr>"

fun reducer :: "AppState \<Rightarrow> ExploreAction \<Rightarrow> AppState" where
  "reducer state (UPDATE_SESSION cur hist root) =
     (let newCollection =
            (case findIndex (\<lambda>i. idOf i = idOf root) (collection state) of
               Some existingIdx \<Rightarrow> (collection state)[existingIdx := root]
             | None \<Rightarrow> root # collection state)
      in state\<lparr>currentItem := Some cur, history := hist, collection := newCollection\<rparr>)"
| "reducer state (INIT_COLLECTION items) = state\<lparr>collection := items\<rparr>"
| "reducer state (REMOVE_FROM_COLLECTION rid) =
     state\<lparr>collection := filter (\<lambda>item. idOf item \<noteq> rid) (collection state)\<rparr>"
| "reducer state (LOAD_FROM_COLLECTION rootItem) =
     state\<lparr>currentItem := Some rootItem, history := [rootItem], status := idleStatus\<rparr>"
| "reducer state (SET_STATUS st) = state\<lparr>status := st\<rparr>"
| "reducer state (NAVIGATE_TO targetId) =
     (case history state of
        [] \<Rightarrow> state
      | currentRoot # _ \<Rightarrow>
          (case findPathToNode currentRoot targetId of
             None \<Rightarrow> state
           | Some newPath \<Rightarrow>
               state\<lparr>currentItem := (if newPath = [] then None else Some (last newPath)),
                     history := newPath\<rparr>))"
| "reducer state (SET_GENERATION_MODE m) = state\<lparr>generationMode := m\<rparr>"
| "reducer state (SET_GENERATION_OPTIONS p) =
     state\<lparr>generationOptions := mergeOptions (generationOptions state) p\<rparr>"
| "reducer state (CONFIGURE_ACCESS off) = state\<lparr>isConfigured := True, isOffline := off\<rparr>"
| "reducer state RESET =
     initialState\<lparr>collection := collection state,
                  generationMode := generationMode state,
                  generationOptions := generationOptions state,
                  isConfigured := isConfigured state,
                  isOffline := isOffline state\<rparr>"
| "reducer state RECONFIGURE =
     initialState\<lparr>collection := collection state,
                  generationMode := generationMode state,
                  generationOptions := generationOptions state,
                  isConfigured := False,
                  isOffline := False\<rparr>"

section \<open>The AI service and the clock (services/gemini)\<close>

text \<open>
  JavaScript truthiness of an optional string: \<^verbatim>\<open>undefined\<close> and the empty string are
  falsy. \<open>truthyStr\<close> keeps a truthy value and maps a falsy one to \<open>None\<close>; \<open>orElse a b\<close>
  is \<^verbatim>\<open>a || b\<close>.
\<close>

definition truthyStr :: "string option \<Rightarrow> string option" where
  "truthyStr v = (case v of None \<Rightarrow> None | Some s \<Rightarrow> if s = [] then None else Some s)"

definition orElse :: "string option \<Rightarrow> string \<Rightarrow> string" where
  "orElse a b = (case truthyStr a of None \<Rightarrow> b | Some s \<Rightarrow> s)"

text \<open>The parsed JSON reply of the analysis call; every field may be missing.\<close>

record RawAnalysis =
  raw_name :: "string option"
  raw_category :: "string option"
  raw_description :: "string option"
  raw_partNames :: "string list option"
  raw_facts :: "string list option"
  raw_characteristics :: "ItemCharacteristic list option"

record StructureAnalysis =
  sa_id :: string
  sa_name :: string
  sa_category :: string
  sa_description :: string
  sa_partNames :: "string list"
  sa_facts :: "string list"
  sa_characteristics :: "ItemCharacteristic list"

record RawPart =
  raw_part_name :: string
  raw_part_description :: string
  raw_x :: int
  raw_y :: int

text \<open>
  The image prompts are template strings. A prompt is modelled by the template used and
  the values interpolated into it: the subject, the component list, the options behind
  the anchor block, and whether the reference instruction is included.
\<close>

datatype PromptKind = ExplodedFastPrompt | AssembledPrompt | CutawayPrompt
  | ExplodedWithRefPrompt

record Prompt =
  prompt_kind :: PromptKind
  prompt_subject :: string
  prompt_components :: "string list"
  prompt_anchor :: GenerationOptions
  prompt_refInstruction :: bool

text \<open>
  Everything outside the program is a \<open>World\<close>: the runtime's \<^verbatim>\<open>toLowerCase\<close>, the
  configured API key, what the
  service answers to each call (\<open>None\<close> when the call throws or returns nothing usable),
  and the readings of \<^verbatim>\<open>Date.now()\<close>. Coordinates are modelled as integers.
\<close>

record World =
  toLowerCase :: "string \<Rightarrow> string"
  apiKey :: string
  identifyReply :: "string \<Rightarrow> string option"
  analysisReply :: "string \<Rightarrow> GenerationOptions \<Rightarrow> RawAnalysis option"
  imageReply :: "Prompt \<Rightarrow> string option \<Rightarrow> string option"
  scanReply :: "string \<Rightarrow> string list \<Rightarrow> RawPart list option"
  analysisClock :: nat
  partClock :: "nat \<Rightarrow> nat"
  compileClock :: nat

text \<open>\<^verbatim>\<open>identifyMainObject\<close>; \<open>None\<close> is the thrown error. The reply is the trimmed
  response text.\<close>

definition identifyMainObject :: "World \<Rightarrow> string \<Rightarrow> string option" where
  "identifyMainObject w imageBase64 =
     (if apiKey w = [] then None
      else (case identifyReply w imageBase64 of
              None \<Rightarrow> None
            | Some text \<Rightarrow> Some (orElse (Some text) ''Unknown Object'')))"

text \<open>\<^verbatim>\<open>analyzeStructure\<close>; \<open>None\<close> is the thrown error.\<close>

definition analyzeStructure ::
  "World \<Rightarrow> string \<Rightarrow> GenerationOptions \<Rightarrow> StructureAnalysis option" where
  "analyzeStructure w query options =
     (if apiKey w = [] then None
      else (case analysisReply w query options of
              None \<Rightarrow> None
            | Some data \<Rightarrow>
                Some \<lparr>sa_id = showNat (analysisClock w),
                      sa_name = orElse (raw_name data) query,
                      sa_category = orElse (raw_category data) ''Unknown'',
                      sa_description = orElse (raw_description data) ''No description.'',
                      sa_partNames = (case raw_partNames data of None \<Rightarrow> [] | Some l \<Rightarrow> l),
                      sa_facts = (case raw_facts data of None \<Rightarrow> [] | Some l \<Rightarrow> l),
                      sa_characteristics =
                        (case raw_characteristics data of None \<Rightarrow> [] | Some l \<Rightarrow> l)\<rparr>))"

text \<open>\<^verbatim>\<open>generateImage\<close>: never throws; \<open>None\<close> is \<^verbatim>\<open>undefined\<close>. The reference image is
  sent only when it is truthy.\<close>

definition generateImage :: "World \<Rightarrow> Prompt \<Rightarrow> string option \<Rightarrow> string option" where
  "generateImage w prompt referenceImageBase64 =
     (if apiKey w = [] then None
      else (case imageReply w prompt (truthyStr referenceImageBase64) of
              None \<Rightarrow> None
            | Some d \<Rightarrow> Some (''data:image/png;base64,'' @ d)))"

definition safePartNamesOf :: "World \<Rightarrow> string \<Rightarrow> string list \<Rightarrow> string list" where
  "safePartNamesOf w subject partNames =
     (let subjectTokens = splitSpace (toLowerCase w subject)
      in filter (\<lambda>part. \<not> List.member subjectTokens (toLowerCase w part)) partNames)"

definition explodedFastPrompt ::
  "World \<Rightarrow> string \<Rightarrow> string list \<Rightarrow> string option \<Rightarrow> GenerationOptions \<Rightarrow> Prompt" where
  "explodedFastPrompt w subject partNames initialReferenceImage options =
     \<lparr>prompt_kind = ExplodedFastPrompt, prompt_subject = subject,
      prompt_components = safePartNamesOf w subject partNames, prompt_anchor = options,
      prompt_refInstruction = (truthyStr initialReferenceImage \<noteq> None)\<rparr>"

definition assembledPrompt :: "string \<Rightarrow> string option \<Rightarrow> GenerationOptions \<Rightarrow> Prompt" where
  "assembledPrompt subject initialReferenceImage options =
     \<lparr>prompt_kind = AssembledPrompt, prompt_subject = subject,
      prompt_components = [], prompt_anchor = options,
      prompt_refInstruction = (truthyStr initialReferenceImage \<noteq> None)\<rparr>"

definition cutawayPrompt :: "string \<Rightarrow> GenerationOptions \<Rightarrow> Prompt" where
  "cutawayPrompt subject options =
     \<lparr>prompt_kind = CutawayPrompt, prompt_subject = subject,
      prompt_components = [], prompt_anchor = options, prompt_refInstruction = False\<rparr>"

definition explodedWithRefPrompt ::
  "World \<Rightarrow> string \<Rightarrow> string list \<Rightarrow> GenerationOptions \<Rightarrow> Prompt" where
  "explodedWithRefPrompt w subject partNames options =
     \<lparr>prompt_kind = ExplodedWithRefPrompt, prompt_subject = subject,
      prompt_components = safePartNamesOf w subject partNames, prompt_anchor = options,
      prompt_refInstruction = False\<rparr>"

text \<open>
  \<^verbatim>\<open>generateVisualAssets\<close>. In full mode the cutaway and exploded calls are issued
  together, both with the assembled image as reference; neither sees the other's result.
\<close>

definition generateVisualAssets ::
  "World \<Rightarrow> string \<Rightarrow> string list \<Rightarrow> Mode \<Rightarrow> string option \<Rightarrow> GenerationOptions
     \<Rightarrow> ItemImages option" where
  "generateVisualAssets w subject partNames mode initialReferenceImage options =
     (if apiKey w = [] then None
      else (case mode of
        fast \<Rightarrow>
          (case truthyStr (generateImage w
                  (explodedFastPrompt w subject partNames initialReferenceImage options)
                  initialReferenceImage) of
             None \<Rightarrow> None
           | Some explodedImg \<Rightarrow>
               Some \<lparr>assembled = None, cutaway = None, exploded = explodedImg\<rparr>)
      | full \<Rightarrow>
          (case truthyStr (generateImage w
                  (assembledPrompt subject initialReferenceImage options)
                  initialReferenceImage) of
             None \<Rightarrow> None
           | Some assembledImg \<Rightarrow>
               (let cutawayImg =
                      generateImage w (cutawayPrompt subject options) (Some assembledImg);
                    explodedImg =
                      generateImage w (explodedWithRefPrompt w subject partNames options)
                        (Some assembledImg)
                in Some \<lparr>assembled = Some assembledImg,
                         cutaway = Some (orElse cutawayImg assembledImg),
                         exploded = orElse explodedImg assembledImg\<rparr>))))"

text \<open>The id \<^verbatim>\<open>`${Date.now()}-${index}`\<close> of the part at \<open>index\<close>.\<close>

definition partIdAt :: "World \<Rightarrow> nat \<Rightarrow> string" where
  "partIdAt w index = showNat (partClock w index) @ ''-'' @ showNat index"

text \<open>\<^verbatim>\<open>detectPartCoordinates\<close>: the empty list when the image or the key is missing and
  when the call or the parsing of its reply fails.\<close>

definition detectPartCoordinates :: "World \<Rightarrow> string \<Rightarrow> string list \<Rightarrow> ItemPart list" where
  "detectPartCoordinates w explodedImageBase64 partNames =
     (if explodedImageBase64 = [] \<or> apiKey w = [] then []
      else (case scanReply w explodedImageBase64 partNames of
              None \<Rightarrow> []
            | Some partsData \<Rightarrow>
                map (\<lambda>(index, p).
                       \<lparr>part_id = partIdAt w index,
                        part_name = raw_part_name p,
                        part_description = raw_part_description p,
                        part_x = raw_x p,
                        part_y = raw_y p\<rparr>)
                  (enumerate 0 partsData)))"

section \<open>Context builder (inside explore)\<close>

text \<open>
  The deduplication loop \<^verbatim>\<open>for (let i = n - 1; i > 0; i--)\<close> over the mutable copy
  \<^verbatim>\<open>cleanParts\<close>: \<open>dedupLoop lc i\<close> is the loop about to run with loop variable \<open>i\<close>,
  where \<open>lc\<close> is the runtime's \<^verbatim>\<open>toLowerCase\<close>.
\<close>

fun dedupLoop :: "(string \<Rightarrow> string) \<Rightarrow> nat \<Rightarrow> string list \<Rightarrow> string list" where
  "dedupLoop lc 0 cleanParts = cleanParts"
| "dedupLoop lc (Suc j) cleanParts =
     dedupLoop lc j
       (if includesStr (lc (cleanParts ! Suc j)) (lc (cleanParts ! j))
        then cleanParts[j := []]
        else cleanParts)"

definition contextStringOf :: "World \<Rightarrow> ExploredItem list \<Rightarrow> string" where
  "contextStringOf w path =
     (let parts = map nameOf path;
          cleanParts = dedupLoop (toLowerCase w) (length parts - 1) parts
      in joinSpace (filter (\<lambda>p. p \<noteq> []) cleanParts))"

definition contextQueryOf ::
  "World \<Rightarrow> AppState \<Rightarrow> string \<Rightarrow> string option \<Rightarrow> string" where
  "contextQueryOf w state query parentArg =
     (case truthyStr parentArg of
        None \<Rightarrow> query
      | Some pid \<Rightarrow>
          (case history state of
             [] \<Rightarrow> query
           | currentRoot # _ \<Rightarrow>
               (case findPathToNode currentRoot pid of
                  None \<Rightarrow> query
                | Some path \<Rightarrow> query @ '' from '' @ contextStringOf w path)))"

section \<open>The explore request (ExplorerContext)\<close>

text \<open>
  \<open>explore\<close> reads one snapshot of the state (the \<^verbatim>\<open>state\<close> its closure captured) and
  talks to the rest of the program through \<^verbatim>\<open>dispatch\<close> and through the save to the
  database. A run is modelled by the list of these effects in program order; the state
  after the run is the reducer folded over the dispatched actions. The parameter
  \<^verbatim>\<open>parentId\<close> is \<open>parentArg\<close> here.
\<close>

datatype Effect = Dispatch ExploreAction | SaveExploration ExploredItem

fun applyEffect :: "AppState \<Rightarrow> Effect \<Rightarrow> AppState" where
  "applyEffect state (Dispatch a) = reducer state a"
| "applyEffect state (SaveExploration r) = state"

definition applyEffects :: "AppState \<Rightarrow> Effect list \<Rightarrow> AppState" where
  "applyEffects state effects = foldl applyEffect state effects"

definition offlineStatus :: GenerationStatus where
  "offlineStatus =
     \<lparr>isGenerating = False, stage = error,
      message = Some ''Offline Mode: Cannot generate new explorations.'',
      currentFacts = None\<rparr>"

definition failedStatus :: GenerationStatus where
  "failedStatus =
     \<lparr>isGenerating = False, stage = error,
      message = Some ''Exploration failed. System Error.'', currentFacts = None\<rparr>"

definition analyzingStatus :: "string \<Rightarrow> GenerationStatus" where
  "analyzingStatus query =
     \<lparr>isGenerating = True, stage = analyzing,
      message = Some (''Analyzing structure of '' @ query @ ''...''), currentFacts = None\<rparr>"

definition renderingStatus :: "Mode \<Rightarrow> string list \<Rightarrow> GenerationStatus" where
  "renderingStatus m fs =
     \<lparr>isGenerating = True, stage = rendering_assembled,
      message = Some (if m = full then ''Constructing base model...''
                      else ''Generating schematic...''),
      currentFacts = Some fs\<rparr>"

definition scanningStatus :: "string list \<Rightarrow> GenerationStatus" where
  "scanningStatus fs =
     \<lparr>isGenerating = True, stage = scanning,
      message = Some ''Calibrating component locations...'', currentFacts = Some fs\<rparr>"

definition completeStatus :: GenerationStatus where
  "completeStatus =
     \<lparr>isGenerating = False, stage = complete, message = None, currentFacts = None\<rparr>"

definition identifyingStatus :: GenerationStatus where
  "identifyingStatus =
     \<lparr>isGenerating = True, stage = analyzing,
      message = Some ''Scanning image for object identification...'', currentFacts = None\<rparr>"

definition identifyFailedStatus :: GenerationStatus where
  "identifyFailedStatus =
     \<lparr>isGenerating = False, stage = error,
      message = Some ''Failed to identify object from image.'', currentFacts = None\<rparr>"

text \<open>The memory check: the first child of the current item whose name contains the
  query or is contained in it, both lower-cased.\<close>

definition nameMatches :: "World \<Rightarrow> string \<Rightarrow> string \<Rightarrow> bool" where
  "nameMatches w childName query =
     (includesStr (toLowerCase w childName) (toLowerCase w query) \<or>
      includesStr (toLowerCase w query) (toLowerCase w childName))"

definition memoryHit ::
  "World \<Rightarrow> AppState \<Rightarrow> string \<Rightarrow> string option \<Rightarrow> ExploredItem option" where
  "memoryHit w state query parentArg =
     (case truthyStr parentArg of
        None \<Rightarrow> None
      | Some pid \<Rightarrow>
          (case currentItem state of
             None \<Rightarrow> None
           | Some cur \<Rightarrow> findFirst (\<lambda>c. nameMatches w (nameOf c) query) (children cur)))"

text \<open>The synthetic placement of the \<^verbatim>\<open>else\<close> branch of the scan step.\<close>

definition fallbackParts :: "World \<Rightarrow> string list \<Rightarrow> ItemPart list" where
  "fallbackParts w partNames =
     map (\<lambda>(i, n).
            \<lparr>part_id = partIdAt w i,
             part_name = n,
             part_description = ''Visual analysis unavailable.'',
             part_x = 50,
             part_y = 50 + int i * 10\<rparr>)
       (enumerate 0 partNames)"

text \<open>Step 3 of the pipeline: the status it dispatches, if any, and \<^verbatim>\<open>finalParts\<close>.\<close>

definition scanStep ::
  "World \<Rightarrow> StructureAnalysis \<Rightarrow> ItemImages option \<Rightarrow> Effect list \<times> ItemPart list" where
  "scanStep w structure imgs =
     (case imgs of
        None \<Rightarrow> ([], fallbackParts w (sa_partNames structure))
      | Some bundle \<Rightarrow>
          if exploded bundle \<noteq> [] then
            ([Dispatch (SET_STATUS (scanningStatus (sa_facts structure)))],
             detectPartCoordinates w (exploded bundle) (sa_partNames structure))
          else ([], fallbackParts w (sa_partNames structure)))"

text \<open>\<^verbatim>\<open>completeItem\<close>, given the value computed for its \<^verbatim>\<open>rootId\<close>.\<close>

definition compileItem ::
  "World \<Rightarrow> StructureAnalysis \<Rightarrow> string \<Rightarrow> ItemImages option \<Rightarrow> ItemPart list
     \<Rightarrow> string \<Rightarrow> string option \<Rightarrow> int \<Rightarrow> ExploredItem" where
  "compileItem w structure effectiveName imgs finalParts rid parentArg itemDepth =
     Item \<lparr>item_id = sa_id structure,
           rootId = rid,
           name = effectiveName,
           category = sa_category structure,
           description = sa_description structure,
           images = imgs,
           parts = finalParts,
           facts = Some (sa_facts structure),
           characteristics = Some (sa_characteristics structure),
           parentId = parentArg,
           depth = itemDepth,
           timestamp = compileClock w\<rparr> []"

text \<open>
  The \<^verbatim>\<open>try\<close> block of \<open>explore\<close>. Two things can throw inside it: \<open>analyzeStructure\<close>,
  and the read \<^verbatim>\<open>state.history[0].id\<close> for a child request while the history is empty.
  In both cases the effects dispatched so far stay and the \<^verbatim>\<open>catch\<close> dispatches the
  error status.
\<close>

definition runPipeline ::
  "World \<Rightarrow> AppState \<Rightarrow> string \<Rightarrow> string option \<Rightarrow> string option \<Rightarrow> Effect list" where
  "runPipeline w state query parentArg referenceImage =
     (let itemDepth =
            (case truthyStr parentArg of
               None \<Rightarrow> 0
             | Some pid \<Rightarrow>
                 (case currentItem state of None \<Rightarrow> 0 | Some cur \<Rightarrow> depth (info cur) + 1));
          contextQuery = contextQueryOf w state query parentArg;
          started = [Dispatch (SET_STATUS (analyzingStatus query))]
      in case analyzeStructure w contextQuery (generationOptions state) of
           None \<Rightarrow> started @ [Dispatch (SET_STATUS failedStatus)]
         | Some structure \<Rightarrow>
             (let effectiveName =
                    (case truthyStr parentArg of
                       None \<Rightarrow> sa_name structure
                     | Some pid \<Rightarrow> contextQuery);
                  rendering =
                    [Dispatch (SET_STATUS
                       (renderingStatus (generationMode state) (sa_facts structure)))];
                  imgs = generateVisualAssets w effectiveName (sa_partNames structure)
                           (generationMode state) referenceImage (generationOptions state);
                  scan = scanStep w structure imgs;
                  finalParts = snd scan;
                  sofar = started @ rendering @ fst scan
              in case truthyStr parentArg of
                   None \<Rightarrow>
                     (let completeItem =
                            compileItem w structure effectiveName imgs finalParts
                              (sa_id structure) parentArg itemDepth;
                          newRoot = completeItem;
                          newHistory = [completeItem]
                      in sofar @
                         [Dispatch (UPDATE_SESSION completeItem newHistory newRoot),
                          SaveExploration newRoot,
                          Dispatch (SET_STATUS completeStatus)])
                 | Some pid \<Rightarrow>
                     (case history state of
                        [] \<Rightarrow> sofar @ [Dispatch (SET_STATUS failedStatus)]
                      | currentRoot # _ \<Rightarrow>
                          (let completeItem =
                                 compileItem w structure effectiveName imgs finalParts
                                   (idOf currentRoot) parentArg itemDepth;
                               newRoot = updateItemInTree currentRoot pid completeItem;
                               newHistory =
                                 (case findPathToNode newRoot (idOf completeItem) of
                                    Some path \<Rightarrow> path
                                  | None \<Rightarrow> [newRoot, completeItem])
                           in sofar @
                              [Dispatch (UPDATE_SESSION completeItem newHistory newRoot),
                               SaveExploration newRoot,
                               Dispatch (SET_STATUS completeStatus)]))))"

definition explore ::
  "World \<Rightarrow> AppState \<Rightarrow> string \<Rightarrow> string option \<Rightarrow> string option \<Rightarrow> Effect list" where
  "explore w state query parentArg referenceImage =
     (if isGenerating (status state) then []
      else (case memoryHit w state query parentArg of
              Some existingChild \<Rightarrow> [Dispatch (NAVIGATE_TO (idOf existingChild))]
            | None \<Rightarrow>
                if isOffline state then [Dispatch (SET_STATUS offlineStatus)]
                else runPipeline w state query parentArg referenceImage))"

text \<open>\<^verbatim>\<open>exploreFromDataUrl\<close>: the identify stage, then \<open>explore\<close> on the same snapshot.\<close>

definition exploreFromDataUrl :: "World \<Rightarrow> AppState \<Rightarrow> string \<Rightarrow> Effect list" where
  "exploreFromDataUrl w state base64 =
     (if isGenerating (status state) then []
      else if isOffline state then [Dispatch (SET_STATUS offlineStatus)]
      else Dispatch (SET_STATUS identifyingStatus) #
           (case identifyMainObject w base64 of
              None \<Rightarrow> [Dispatch (SET_STATUS identifyFailedStatus)]
            | Some objectName \<Rightarrow> explore w state objectName None (Some base64)))"

text \<open>The state once every effect of a request has been applied to the state it read.\<close>

definition stateAfterExplore ::
  "World \<Rightarrow> AppState \<Rightarrow> string \<Rightarrow> string option \<Rightarrow> string option \<Rightarrow> AppState" where
  "stateAfterExplore w state query parentArg referenceImage =
     applyEffects state (explore w state query parentArg referenceImage)"

definition stateAfterExploreFromDataUrl :: "World \<Rightarrow> AppState \<Rightarrow> string \<Rightarrow> AppState" where
  "stateAfterExploreFromDataUrl w state base64 =
     applyEffects state (exploreFromDataUrl w state base64)"

section \<open>Vocabulary for stating the tree properties\<close>

text \<open>The ids of all nodes of a tree.\<close>

fun nodeIds :: "ExploredItem \<Rightarrow> string set" where
  "nodeIds (Item f cs) = insert (item_id f) (\<Union> (nodeIds ` set cs))"

text \<open>A list of items in which every element is a child of the element before it.\<close>

fun parentChildChain :: "ExploredItem list \<Rightarrow> bool" where
  "parentChildChain [] = True"
| "parentChildChain [x] = True"
| "parentChildChain (x # y # ys) = (y \<in> set (children x) \<and> parentChildChain (y # ys))"

text \<open>The shape of a tree with everything but the ids forgotten.\<close>

datatype IdTree = IdNode string "IdTree list"

fun idStructure :: "ExploredItem \<Rightarrow> IdTree" where
  "idStructure (Item f cs) = IdNode (item_id f) (map idStructure cs)"

text \<open>
  \<open>alreadyAttached root parent cid\<close>: every node at which \<open>updateItemInTree root parent\<close>
  attaches (the first node with id \<open>parent\<close> on each branch) already has a child with
  id \<open>cid\<close>.
\<close>

fun alreadyAttached :: "ExploredItem \<Rightarrow> string \<Rightarrow> string \<Rightarrow> bool" where
  "alreadyAttached (Item f cs) parent cid =
     (if item_id f = parent then list_ex (\<lambda>c. idOf c = cid) cs
      else list_all (\<lambda>c. alreadyAttached c parent cid) cs)"

text \<open>No node of the tree has two children with the same id.\<close>

fun siblingIdsDistinct :: "ExploredItem \<Rightarrow> bool" where
  "siblingIdsDistinct (Item f cs) =
     (distinct (map idOf cs) \<and> list_all siblingIdsDistinct cs)"


text \<open>
  The deduplication loop read from right to left: \<open>dedupOnto pre r\<close> is the loop run
  over the names \<open>pre\<close> in front of an already finished rest \<open>r\<close>, and
  \<open>dedupAdjacent\<close> is the whole pass: a name is blanked when the lower-cased name after
  it, as the pass left it, contains its lower-cased form.
\<close>

fun dedupOnto :: "(string \<Rightarrow> string) \<Rightarrow> string list \<Rightarrow> string list \<Rightarrow> string list" where
  "dedupOnto lc [] r = r"
| "dedupOnto lc (x # xs) r =
     (let r' = dedupOnto lc xs r
      in (if includesStr (lc (hd r')) (lc x) then [] else x) # r')"

fun dedupAdjacent :: "(string \<Rightarrow> string) \<Rightarrow> string list \<Rightarrow> string list" where
  "dedupAdjacent lc [] = []"
| "dedupAdjacent lc [x] = [x]"
| "dedupAdjacent lc (x # y # ys) =
     (let r = dedupAdjacent lc (y # ys)
      in (if includesStr (lc (hd r)) (lc x) then [] else x) # r)"

text \<open>Kinds of effects in the trace of a request: an error status, a commit (the
  session update or the save), a progress status.\<close>

fun isErrorEffect :: "Effect \<Rightarrow> bool" where
  "isErrorEffect (Dispatch (SET_STATUS st)) = (stage st = error)"
| "isErrorEffect e = False"

fun isCommitEffect :: "Effect \<Rightarrow> bool" where
  "isCommitEffect (Dispatch (UPDATE_SESSION c h r)) = True"
| "isCommitEffect (SaveExploration r) = True"
| "isCommitEffect e = False"

fun isProgressEffect :: "Effect \<Rightarrow> bool" where
  "isProgressEffect (Dispatch (SET_STATUS st)) = (stage st \<noteq> error)"
| "isProgressEffect e = False"

section \<open>Sample data\<close>

text \<open>
  A sample \<^verbatim>\<open>toLowerCase\<close> for the concrete runs: it folds the ASCII letters and the
  capital umlauts (two bytes in UTF-8, the first being C3).
\<close>

definition asciiLower :: "char \<Rightarrow> char" where
  "asciiLower c =
     (case map_of (zip ''ABCDEFGHIJKLMNOPQRSTUVWXYZ'' ''abcdefghijklmnopqrstuvwxyz'') c of
        Some l \<Rightarrow> l
      | None \<Rightarrow> c)"

definition latin1Lower :: "char \<Rightarrow> char" where
  "latin1Lower d =
     (case map_of [(CHR 0x84, CHR 0xA4), (CHR 0x96, CHR 0xB6), (CHR 0x9C, CHR 0xBC)] d of
        Some l \<Rightarrow> l
      | None \<Rightarrow> d)"

fun sampleLower :: "string \<Rightarrow> string" where
  "sampleLower [] = []"
| "sampleLower [c] = [asciiLower c]"
| "sampleLower (c # d # cs) =
     (if c = CHR 0xC3 then c # latin1Lower d # sampleLower cs
      else asciiLower c # sampleLower (d # cs))"

text \<open>The German word for apples, in capitals and in lower case, with its umlaut.\<close>

definition upperApfel :: string where
  "upperApfel = [CHR 0xC3, CHR 0x84] @ ''PFEL''"

definition lowerApfel :: string where
  "lowerApfel = [CHR 0xC3, CHR 0xA4] @ ''pfel''"

definition sampleItem :: "string \<Rightarrow> string \<Rightarrow> ExploredItem list \<Rightarrow> ExploredItem" where
  "sampleItem i n cs =
     Item \<lparr>item_id = i, rootId = ''1'', name = n, category = ''Sample'', description = [],
           images = None, parts = [], facts = None, characteristics = None,
           parentId = None, depth = 0, timestamp = 0\<rparr> cs"

definition exPiston :: ExploredItem where
  "exPiston = sampleItem ''3'' ''Piston'' []"

definition exEngine :: ExploredItem where
  "exEngine = sampleItem ''2'' ''Engine'' [exPiston]"

definition exWheel :: ExploredItem where
  "exWheel = sampleItem ''4'' ''Wheel'' []"

definition exCar :: ExploredItem where
  "exCar = sampleItem ''1'' ''Car'' [exWheel, exEngine]"

definition exPistonRenamed :: ExploredItem where
  "exPistonRenamed = sampleItem ''3'' ''Piston from Engine'' []"

definition stateAtCar :: AppState where
  "stateAtCar = initialState\<lparr>currentItem := Some exCar, history := [exCar]\<rparr>"

definition exAvocado :: ExploredItem where
  "exAvocado = sampleItem ''1'' ''Avocado'' []"

definition stateAtAvocado :: AppState where
  "stateAtAvocado = initialState\<lparr>currentItem := Some exAvocado, history := [exAvocado]\<rparr>"

definition sampleAnalysis :: RawAnalysis where
  "sampleAnalysis =
     \<lparr>raw_name = Some ''Avocado Fruit'', raw_category = Some ''Food'',
      raw_description = Some ''A fruit.'', raw_partNames = Some [''Skin'', ''Seed''],
      raw_facts = Some [''Rich in fat.''],
      raw_characteristics = Some [\<lparr>label = ''Calories'', val = ''160''\<rparr>]\<rparr>"

definition worldAllOk :: World where
  "worldAllOk =
     \<lparr>toLowerCase = sampleLower,
      apiKey = ''key'',
      identifyReply = (\<lambda>img. Some ''Avocado''),
      analysisReply = (\<lambda>q opts. Some sampleAnalysis),
      imageReply = (\<lambda>p r. Some ''AAAA''),
      scanReply = (\<lambda>img names.
         Some (map (\<lambda>n. \<lparr>raw_part_name = n, raw_part_description = ''seen'',
                           raw_x = 10, raw_y = 20\<rparr>) names)),
      analysisClock = 7,
      partClock = (\<lambda>i. 8),
      compileClock = 9\<rparr>"

definition worldNoImages :: World where
  "worldNoImages = worldAllOk\<lparr>imageReply := (\<lambda>p r. None)\<rparr>"

definition fastState :: AppState where
  "fastState = initialState\<lparr>generationMode := fast, isConfigured := True\<rparr>"

definition exSeed :: ExploredItem where
  "exSeed = sampleItem ''5'' ''Avocado Seed'' []"

definition worldScanFails :: World where
  "worldScanFails = worldAllOk\<lparr>scanReply := (\<lambda>img names. None)\<rparr>"

definition worldAnalysisFails :: World where
  "worldAnalysisFails = worldAllOk\<lparr>analysisReply := (\<lambda>q opts. None)\<rparr>"

definition worldOnlyAssembled :: World where
  "worldOnlyAssembled =
     worldAllOk\<lparr>imageReply := (\<lambda>p r. if prompt_kind p = AssembledPrompt then Some ''AAAA'' else None)\<rparr>"

definition worldNoKey :: World where
  "worldNoKey = worldAllOk\<lparr>apiKey := []\<rparr>"

definition sampleImage :: string where
  "sampleImage = ''data:image/png;base64,AAAA''"

definition scannedPart :: "nat \<Rightarrow> string \<Rightarrow> ItemPart" where
  "scannedPart i n =
     \<lparr>part_id = ''8-'' @ showNat i, part_name = n, part_description = ''seen'',
      part_x = 10, part_y = 20\<rparr>"

definition compiledInfo :: ItemInfo where
  "compiledInfo =
     \<lparr>item_id = ''7'', rootId = ''7'', name = ''Avocado Fruit'', category = ''Food'',
      description = ''A fruit.'',
      images = Some \<lparr>assembled = Some sampleImage, cutaway = Some sampleImage,
                      exploded = sampleImage\<rparr>,
      parts = [scannedPart 0 ''Skin'', scannedPart 1 ''Seed''],
      facts = Some [''Rich in fat.''],
      characteristics = Some [\<lparr>label = ''Calories'', val = ''160''\<rparr>],
      parentId = None, depth = 0, timestamp = 9\<rparr>"

definition rootItem :: ExploredItem where
  "rootItem = Item compiledInfo []"

definition seedItem :: ExploredItem where
  "seedItem =
     Item (compiledInfo\<lparr>rootId := ''1'', name := ''Seed from Avocado'',
                        parentId := Some ''1'', depth := 1\<rparr>) []"

definition bareItem :: ExploredItem where
  "bareItem =
     Item (compiledInfo\<lparr>images := None,
             parts := [\<lparr>part_id = ''8-0'', part_name = ''Skin'',
                        part_description = ''Visual analysis unavailable.'',
                        part_x = 50, part_y = 50\<rparr>,
                       \<lparr>part_id = ''8-1'', part_name = ''Seed'',
                        part_description = ''Visual analysis unavailable.'',
                        part_x = 50, part_y = 60\<rparr>]\<rparr>) []"

definition noPartsItem :: ExploredItem where
  "noPartsItem =
     Item (compiledInfo\<lparr>images := Some \<lparr>assembled = None, cutaway = None,
                                           exploded = sampleImage\<rparr>,
                        parts := []\<rparr>) []"

definition exApfelKern :: ExploredItem where
  "exApfelKern = sampleItem ''6'' (upperApfel @ '' Kern'') []"

definition exApfel :: ExploredItem where
  "exApfel = sampleItem ''1'' lowerApfel [exApfelKern]"

definition stateAtApfelKern :: AppState where
  "stateAtApfelKern =
     initialState\<lparr>currentItem := Some exApfelKern, history := [exApfel, exApfelKern]\<rparr>"










definition sampleStructure :: StructureAnalysis where
  "sampleStructure =
     \<lparr>sa_id = ''7'', sa_name = ''Avocado Fruit'', sa_category = ''Food'',
      sa_description = ''A fruit.'', sa_partNames = [''Skin'', ''Seed''],
      sa_facts = [''Rich in fat.''],
      sa_characteristics = [\<lparr>label = ''Calories'', val = ''160''\<rparr>]\<rparr>"

definition fastStateAtAvocado :: AppState where
  "fastStateAtAvocado = stateAtAvocado\<lparr>generationMode := fast\<rparr>"

definition stateNoHistory :: AppState where
  "stateNoHistory = initialState\<lparr>isConfigured := True\<rparr>"

lemmas sample_defs =
  sampleItem_def exPiston_def exEngine_def exWheel_def exCar_def exPistonRenamed_def
  stateAtCar_def initialState_def idleStatus_def exAvocado_def stateAtAvocado_def
  sampleAnalysis_def worldAllOk_def worldNoImages_def fastState_def

lemmas world_defs = worldScanFails_def worldAnalysisFails_def worldOnlyAssembled_def
  worldNoKey_def

lemmas run_defs =
  explore_def runPipeline_def memoryHit_def contextQueryOf_def contextStringOf_def
  analyzeStructure_def generateVisualAssets_def generateImage_def scanStep_def
  detectPartCoordinates_def fallbackParts_def compileItem_def partIdAt_def
  explodedFastPrompt_def assembledPrompt_def cutawayPrompt_def explodedWithRefPrompt_def
  safePartNamesOf_def truthyStr_def orElse_def nameMatches_def asciiLower_def latin1Lower_def
  upperApfel_def lowerApfel_def analyzingStatus_def renderingStatus_def scanningStatus_def
  completeStatus_def failedStatus_def offlineStatus_def Let_def showNat.simps
  sampleImage_def scannedPart_def compiledInfo_def rootItem_def seedItem_def
  exSeed_def

lemmas run_defs2 = run_defs bareItem_def noPartsItem_def stateAfterExplore_def
  stateAfterExploreFromDataUrl_def exploreFromDataUrl_def identifyMainObject_def
  identifyingStatus_def identifyFailedStatus_def

lemmas apfel_defs = exApfelKern_def exApfel_def stateAtApfelKern_def upperApfel_def
  lowerApfel_def asciiLower_def latin1Lower_def


section \<open>Path lookup\<close>

lemma findPath_both:
  "(findPathToNode r t = None \<longleftrightarrow> t \<notin> nodeIds r) \<and>
   (\<forall>p. findPathToNode r t = Some p \<longrightarrow>
      p \<noteq> [] \<and> hd p = r \<and> idOf (last p) = t \<and> parentChildChain p)"
  "(findPathIn root cs t = None \<longleftrightarrow> t \<notin> \<Union> (nodeIds ` set cs)) \<and>
   (\<forall>q. findPathIn root cs t = Some q \<longrightarrow>
      (\<exists>p. q = root # p \<and> p \<noteq> [] \<and> hd p \<in> set cs \<and> idOf (last p) = t \<and>
           parentChildChain p))"
proof (induction r t and root cs t rule: findPathToNode_findPathIn.induct)
  case (1 f cs targetId)
  show ?case
  proof (cases "item_id f = targetId")
    case True
    then show ?thesis by simp
  next
    case False
    have link: "parentChildChain (Item f cs # p)"
      if "p \<noteq> []" "hd p \<in> set cs" "parentChildChain p" for p
      using that by (cases p) auto
    from False 1 show ?thesis
      by (auto simp: link)
  qed
next
  case (2 root targetId)
  show ?case by simp
next
  case (3 root child rest targetId)
  show ?case
  proof (cases "findPathToNode child targetId")
    case None
    with 3 show ?thesis by auto
  next
    case (Some path)
    with 3 show ?thesis by auto
  qed
qed

lemma findPath_None_iff: "findPathToNode r t = None \<longleftrightarrow> t \<notin> nodeIds r"
  using findPath_both(1) by blast

lemma findPath_SomeD:
  "findPathToNode r t = Some p \<Longrightarrow>
     p \<noteq> [] \<and> hd p = r \<and> idOf (last p) = t \<and> parentChildChain p"
  using findPath_both(1) by blast

text \<open>
  Claim C8. On every tree (a value of the datatype is finite and acyclic),
  \<open>findPathToNode root targetId\<close> is not-found exactly when no node of the tree has the
  id; otherwise it is a non-empty list that starts at \<open>root\<close>, ends at a node whose id is
  \<open>targetId\<close>, and in which each element is a child of the one before it.
\<close>

theorem findPathToNode_chain_or_absent:
  "(findPathToNode root targetId = None \<longleftrightarrow> targetId \<notin> nodeIds root) \<and>
   (\<forall>p. findPathToNode root targetId = Some p \<longrightarrow>
      p \<noteq> [] \<and> hd p = root \<and> idOf (last p) = targetId \<and> parentChildChain p)"
  using findPath_None_iff findPath_SomeD by blast

theorem findPathToNode_chain_or_absent_witness:
  "findPathToNode exCar ''3'' = Some [exCar, exEngine, exPiston] \<and>
   hd [exCar, exEngine, exPiston] = exCar \<and>
   idOf (last [exCar, exEngine, exPiston]) = ''3'' \<and>
   parentChildChain [exCar, exEngine, exPiston] \<and>
   findPathToNode exCar ''9'' = None \<and> ''9'' \<notin> nodeIds exCar"
  using findPathToNode_chain_or_absent [of exCar "''3''"]
    findPathToNode_chain_or_absent [of exCar "''9''"]
  by (simp add: sample_defs)

section \<open>Attaching a child\<close>

lemma idOf_updateItemInTree [simp]: "idOf (updateItemInTree r p c) = idOf r"
  by (cases r) (simp add: Let_def)

lemma update_noop: "alreadyAttached r p (idOf c) \<Longrightarrow> updateItemInTree r p c = r"
proof (induction r p c rule: updateItemInTree.induct)
  case (1 f cs targetId newChild)
  show ?case
  proof (cases "item_id f = targetId")
    case True
    with 1(2) show ?thesis by (simp add: Let_def)
  next
    case False
    with 1(2) have "\<forall>ch \<in> set cs. alreadyAttached ch targetId (idOf newChild)"
      by (simp add: list_all_iff)
    with 1(1) False have "map (\<lambda>child. updateItemInTree child targetId newChild) cs = cs"
      by (simp add: map_idI)
    with False show ?thesis by simp
  qed
qed

lemma update_attached:
  "idOf c' = idOf c \<Longrightarrow> alreadyAttached (updateItemInTree r p c) p (idOf c')"
proof (induction r p c rule: updateItemInTree.induct)
  case (1 f cs targetId newChild)
  then show ?case
    by (auto simp: Let_def list_all_iff list_ex_iff)
qed

lemma update_distinct:
  "siblingIdsDistinct r \<Longrightarrow> siblingIdsDistinct c \<Longrightarrow>
     siblingIdsDistinct (updateItemInTree r p c)"
proof (induction r p c rule: updateItemInTree.induct)
  case (1 f cs targetId newChild)
  show ?case
  proof (cases "item_id f = targetId")
    case True
    with 1(2,3) show ?thesis
      by (auto simp: Let_def list_all_iff list_ex_iff)
  next
    case False
    have "map idOf (map (\<lambda>child. updateItemInTree child targetId newChild) cs) = map idOf cs"
      by (simp add: comp_def)
    with False 1 show ?thesis
      by (auto simp: list_all_iff comp_def)
  qed
qed

text \<open>
  Claim C7. Attaching a child whose id is already among the parent's children changes
  nothing; after one attachment the id is among the parent's children, so attaching a
  child with the same id a second time gives the same tree (hence the same id structure)
  as attaching once; and a tree without duplicate sibling ids never gets one.
\<close>

theorem attachChild_idempotent:
  "(alreadyAttached root parent (idOf c) \<longrightarrow> updateItemInTree root parent c = root) \<and>
   (idOf c' = idOf c \<longrightarrow>
      updateItemInTree (updateItemInTree root parent c) parent c'
        = updateItemInTree root parent c \<and>
      idStructure (updateItemInTree (updateItemInTree root parent c) parent c')
        = idStructure (updateItemInTree root parent c)) \<and>
   (siblingIdsDistinct root \<and> siblingIdsDistinct c \<longrightarrow>
      siblingIdsDistinct (updateItemInTree root parent c))"
  using update_noop [of root parent c]
    update_noop [OF update_attached, of c' c root parent]
    update_distinct [of root c parent]
  by auto

theorem attachChild_idempotent_witness:
  "alreadyAttached exCar ''2'' (idOf exPiston) \<and>
   updateItemInTree exCar ''2'' exPiston = exCar \<and>
   idOf exPistonRenamed = idOf exPiston \<and>
   updateItemInTree (updateItemInTree exWheel ''4'' exPiston) ''4'' exPistonRenamed
     = updateItemInTree exWheel ''4'' exPiston \<and>
   children (updateItemInTree exWheel ''4'' exPiston) = [exPiston] \<and>
   siblingIdsDistinct exCar \<and> siblingIdsDistinct exPiston \<and>
   siblingIdsDistinct (updateItemInTree exCar ''4'' exPiston)"
  using attachChild_idempotent [of exCar "''2''" exPiston exPistonRenamed]
    attachChild_idempotent [of exWheel "''4''" exPiston exPistonRenamed]
    attachChild_idempotent [of exCar "''4''" exPiston exPistonRenamed]
  by (simp add: sample_defs)

section \<open>Navigation\<close>

text \<open>
  Claim C10. A \<open>NAVIGATE_TO\<close> action whose target id is not in the tree of the active
  root (the first element of the history), or that arrives while the history is empty,
  returns the state unchanged.
\<close>

theorem navigateTo_absent_unchanged:
  "history state = [] \<or> targetId \<notin> nodeIds (hd (history state)) \<Longrightarrow>
     reducer state (NAVIGATE_TO targetId) = state"
  by (cases "history state") (auto simp: findPath_None_iff [symmetric])

theorem navigateTo_absent_unchanged_witness:
  "history initialState = [] \<and>
   reducer initialState (NAVIGATE_TO ''3'') = initialState \<and>
   history stateAtCar \<noteq> [] \<and> ''9'' \<notin> nodeIds (hd (history stateAtCar)) \<and>
   reducer stateAtCar (NAVIGATE_TO ''9'') = stateAtCar \<and>
   reducer stateAtCar (NAVIGATE_TO ''3'') \<noteq> stateAtCar"
  using navigateTo_absent_unchanged [of initialState "''3''"]
    navigateTo_absent_unchanged [of stateAtCar "''9''"]
  by (simp add: sample_defs)

section \<open>Context builder\<close>

lemma dedupOnto_append: "dedupOnto lc (a @ b) r = dedupOnto lc a (dedupOnto lc b r)"
  by (induction a) (simp_all add: Let_def)

lemma dedupLoop_dedupOnto:
  "length pre = j \<Longrightarrow> r \<noteq> [] \<Longrightarrow> dedupLoop lc j (pre @ r) = dedupOnto lc pre r"
proof (induction j arbitrary: pre r)
  case 0
  then show ?case by simp
next
  case (Suc j)
  then obtain pre' x where pre: "pre = pre' @ [x]" "length pre' = j"
    by (metis length_Suc_conv_rev)
  from Suc.prems obtain z zs where r: "r = z # zs" by (cases r) auto
  have hd: "(pre @ r) ! Suc j = z" using pre r by (simp add: nth_append)
  have at: "(pre @ r) ! j = x" using pre by (simp add: nth_append)
  have upd: "(pre @ r)[j := []] = pre' @ ([] # r)" using pre by (simp add: list_update_append)
  have same: "pre @ r = pre' @ (x # r)" using pre by simp
  show ?case
  proof (cases "includesStr (lc z) (lc x)")
    case True
    then have "dedupLoop lc (Suc j) (pre @ r) = dedupLoop lc j (pre' @ ([] # r))"
      using hd at upd by simp
    also have "\<dots> = dedupOnto lc pre' ([] # r)" using Suc.IH [of pre' "[] # r"] pre by simp
    also have "\<dots> = dedupOnto lc pre r" using True pre r by (simp add: dedupOnto_append)
    finally show ?thesis .
  next
    case False
    then have "dedupLoop lc (Suc j) (pre @ r) = dedupLoop lc j (pre' @ (x # r))"
      using hd at same by simp
    also have "\<dots> = dedupOnto lc pre' (x # r)" using Suc.IH [of pre' "x # r"] pre by simp
    also have "\<dots> = dedupOnto lc pre r" using False pre r by (simp add: dedupOnto_append)
    finally show ?thesis .
  qed
qed

lemma dedupOnto_dedupAdjacent: "dedupOnto lc pre [z] = dedupAdjacent lc (pre @ [z])"
proof (induction pre)
  case Nil
  show ?case by simp
next
  case (Cons x pre)
  obtain y ys where "pre @ [z] = y # ys" by (cases pre) auto
  with Cons show ?case by (simp add: Let_def)
qed

lemma dedupLoop_dedupAdjacent: "dedupLoop lc (length xs - 1) xs = dedupAdjacent lc xs"
proof (cases "xs = []")
  case True
  then show ?thesis by simp
next
  case False
  then have xs: "xs = butlast xs @ [last xs]" by simp
  have "dedupLoop lc (length xs - 1) (butlast xs @ [last xs])
      = dedupOnto lc (butlast xs) [last xs]"
    by (rule dedupLoop_dedupOnto) simp_all
  with xs show ?thesis by (metis dedupOnto_dedupAdjacent)
qed

lemma length_dedupAdjacent [simp]: "length (dedupAdjacent lc xs) = length xs"
  by (induction lc xs rule: dedupAdjacent.induct) (simp_all add: Let_def)

lemma last_dedupAdjacent: "last (dedupAdjacent lc xs) = last xs"
proof (induction lc xs rule: dedupAdjacent.induct)
  case (3 lc x y ys)
  have "dedupAdjacent lc (y # ys) \<noteq> []" by (metis length_dedupAdjacent length_0_conv list.distinct(1))
  with 3 show ?case by (simp add: Let_def)
qed simp_all

lemma contextStringOf_eq:
  "contextStringOf w path =
     joinSpace (filter (\<lambda>p. p \<noteq> []) (dedupAdjacent (toLowerCase w) (map nameOf path)))"
  unfolding contextStringOf_def Let_def
  using dedupLoop_dedupAdjacent [of "toLowerCase w" "map nameOf path"] by simp

lemma nth_dedupAdjacent:
  "Suc i < length xs \<Longrightarrow>
     dedupAdjacent lc xs ! i =
       (if includesStr (lc (dedupAdjacent lc xs ! Suc i)) (lc (xs ! i)) then [] else xs ! i)"
proof (induction lc xs arbitrary: i rule: dedupAdjacent.induct)
  case (3 lc x y ys)
  define r where "r = dedupAdjacent lc (y # ys)"
  have len: "length r = Suc (length ys)" by (simp add: r_def)
  then have hd: "hd r = r ! 0" by (cases r) auto
  have res: "dedupAdjacent lc (x # y # ys)
      = (if includesStr (lc (hd r)) (lc x) then [] else x) # r"
    by (simp add: r_def Let_def)
  show ?case
  proof (cases i)
    case 0
    then show ?thesis by (simp only: res hd) simp
  next
    case (Suc k)
    with "3.prems" have "Suc k < length (y # ys)" by simp
    from "3.IH" [OF this] Suc show ?thesis by (simp only: res) (simp add: r_def)
  qed
qed simp_all

text \<open>
  Claim C1, as amended. When the parent id is truthy, the history is non-empty and the
  parent is found in the tree of the active root, the context query is the query, then
  \<open>'' from ''\<close>, then the non-blank names left by the adjacent deduplication of the ancestor
  names alone: the deduplicated list has one entry per ancestor, and the entry at \<open>i\<close> is
  blank when the lower-cased entry at \<open>i + 1\<close>, as the pass left it, contains the
  lower-cased name at \<open>i\<close>, and is that name otherwise. The query is not part of the list
  and the last ancestor name is never blanked, so the result is never the bare query.
  The result is the bare query when the parent id is falsy, the history is empty, or the
  parent is not found.
\<close>

theorem contextQuery_dedups_ancestors_only:
  "(truthyStr parentArg = Some pid \<and> history state = currentRoot # rest \<and>
    findPathToNode currentRoot pid = Some path \<longrightarrow>
      contextQueryOf w state query parentArg =
        query @ '' from '' @
        joinSpace (filter (\<lambda>p. p \<noteq> []) (dedupAdjacent (toLowerCase w) (map nameOf path))) \<and>
      length (dedupAdjacent (toLowerCase w) (map nameOf path)) = length path \<and>
      (\<forall>i. Suc i < length path \<longrightarrow>
         dedupAdjacent (toLowerCase w) (map nameOf path) ! i =
           (if includesStr
                 (toLowerCase w (dedupAdjacent (toLowerCase w) (map nameOf path) ! Suc i))
                 (toLowerCase w (nameOf (path ! i)))
            then [] else nameOf (path ! i))) \<and>
      last (dedupAdjacent (toLowerCase w) (map nameOf path)) = nameOf (last path) \<and>
      contextQueryOf w state query parentArg \<noteq> query) \<and>
   (truthyStr parentArg = None \<or> history state = [] \<or>
    (truthyStr parentArg = Some pid \<and> history state = currentRoot # rest \<and>
     findPathToNode currentRoot pid = None) \<longrightarrow>
      contextQueryOf w state query parentArg = query)"
proof -
  have found: "contextQueryOf w state query parentArg =
        query @ '' from '' @
        joinSpace (filter (\<lambda>p. p \<noteq> []) (dedupAdjacent (toLowerCase w) (map nameOf path))) \<and>
      length (dedupAdjacent (toLowerCase w) (map nameOf path)) = length path \<and>
      (\<forall>i. Suc i < length path \<longrightarrow>
         dedupAdjacent (toLowerCase w) (map nameOf path) ! i =
           (if includesStr
                 (toLowerCase w (dedupAdjacent (toLowerCase w) (map nameOf path) ! Suc i))
                 (toLowerCase w (nameOf (path ! i)))
            then [] else nameOf (path ! i))) \<and>
      last (dedupAdjacent (toLowerCase w) (map nameOf path)) = nameOf (last path) \<and>
      contextQueryOf w state query parentArg \<noteq> query"
    if a: "truthyStr parentArg = Some pid \<and> history state = currentRoot # rest \<and>
      findPathToNode currentRoot pid = Some path"
  proof -
    from a have eq: "contextQueryOf w state query parentArg
        = query @ '' from '' @ contextStringOf w path"
      by (simp add: contextQueryOf_def)
    then have c1: "contextQueryOf w state query parentArg =
        query @ '' from '' @
        joinSpace (filter (\<lambda>p. p \<noteq> []) (dedupAdjacent (toLowerCase w) (map nameOf path)))"
      by (simp add: contextStringOf_eq)
    have c2: "length (dedupAdjacent (toLowerCase w) (map nameOf path)) = length path"
      by simp
    have c3: "dedupAdjacent (toLowerCase w) (map nameOf path) ! i =
           (if includesStr
                 (toLowerCase w (dedupAdjacent (toLowerCase w) (map nameOf path) ! Suc i))
                 (toLowerCase w (nameOf (path ! i)))
            then [] else nameOf (path ! i))" if "Suc i < length path" for i
      using that nth_dedupAdjacent [of i "map nameOf path" "toLowerCase w"] by simp
    from a have "path \<noteq> []" using findPath_SomeD by blast
    then have c4: "last (dedupAdjacent (toLowerCase w) (map nameOf path)) = nameOf (last path)"
      by (simp add: last_dedupAdjacent last_map)
    have "length (contextQueryOf w state query parentArg) > length query"
      using eq by simp
    then have c5: "contextQueryOf w state query parentArg \<noteq> query" by auto
    from c1 c2 c3 c4 c5 show ?thesis by blast
  qed
  have bare: "contextQueryOf w state query parentArg = query"
    if "truthyStr parentArg = None \<or> history state = [] \<or>
      (truthyStr parentArg = Some pid \<and> history state = currentRoot # rest \<and>
       findPathToNode currentRoot pid = None)"
    using that by (auto simp: contextQueryOf_def split: option.splits list.splits)
  from found bare show ?thesis by blast
qed

theorem contextQuery_dedups_ancestors_only_witness:
  "truthyStr (Some ''6'') = Some ''6'' \<and> history stateAtApfelKern = exApfel # [exApfelKern] \<and>
   findPathToNode exApfel ''6'' = Some [exApfel, exApfelKern] \<and>
   Suc 0 < length [exApfel, exApfelKern] \<and>
   map nameOf [exApfel, exApfelKern] = [lowerApfel, upperApfel @ '' Kern''] \<and>
   includesStr (toLowerCase worldAllOk (upperApfel @ '' Kern'')) (toLowerCase worldAllOk lowerApfel) \<and>
   \<not> includesStr (upperApfel @ '' Kern'') lowerApfel \<and>
   dedupAdjacent (toLowerCase worldAllOk) [lowerApfel, upperApfel @ '' Kern'']
     = [[], upperApfel @ '' Kern''] \<and>
   contextQueryOf worldAllOk stateAtApfelKern ''Core'' (Some ''6'')
     = ''Core from '' @ upperApfel @ '' Kern'' \<and>
   contextQueryOf worldAllOk stateAtCar ''Piston'' (Some ''2'') = ''Piston from Car Engine'' \<and>
   truthyStr (Some '''') = None \<and>
   contextQueryOf worldAllOk stateAtApfelKern ''Core'' (Some '''') = ''Core''"
proof -
  have hyp: "truthyStr (Some ''6'') = Some ''6'' \<and>
      history stateAtApfelKern = exApfel # [exApfelKern] \<and>
      findPathToNode exApfel ''6'' = Some [exApfel, exApfelKern]"
    by (simp add: truthyStr_def apfel_defs sample_defs)
  have names: "map nameOf [exApfel, exApfelKern] = [lowerApfel, upperApfel @ '' Kern'']"
    by (simp add: exApfelKern_def exApfel_def sampleItem_def)
  have inc: "includesStr (toLowerCase worldAllOk (upperApfel @ '' Kern''))
      (toLowerCase worldAllOk lowerApfel)"
    "\<not> includesStr (upperApfel @ '' Kern'') lowerApfel"
    by (simp_all add: worldAllOk_def apfel_defs)
  have ded: "dedupAdjacent (toLowerCase worldAllOk) [lowerApfel, upperApfel @ '' Kern'']
      = [[], upperApfel @ '' Kern'']"
    using inc(1) by (simp add: Let_def)
  have hyp2: "truthyStr (Some '''') = None"
    by (simp add: truthyStr_def)
  have car: "contextQueryOf worldAllOk stateAtCar ''Piston'' (Some ''2'') = ''Piston from Car Engine''"
    by (simp add: contextQueryOf_def contextStringOf_def truthyStr_def worldAllOk_def
        asciiLower_def sample_defs)
  note inst = contextQuery_dedups_ancestors_only [of "Some ''6''" "''6''" stateAtApfelKern
      exApfel "[exApfelKern]" "[exApfel, exApfelKern]" worldAllOk "''Core''"]
  note inst2 = contextQuery_dedups_ancestors_only [of "Some ''''" "''6''" stateAtApfelKern
      exApfel "[exApfelKern]" "[exApfel, exApfelKern]" worldAllOk "''Core''"]
  from inst hyp have "contextQueryOf worldAllOk stateAtApfelKern ''Core'' (Some ''6'') =
      ''Core'' @ '' from '' @
      joinSpace (filter (\<lambda>p. p \<noteq> [])
        (dedupAdjacent (toLowerCase worldAllOk) (map nameOf [exApfel, exApfelKern])))"
    by blast
  then have q: "contextQueryOf worldAllOk stateAtApfelKern ''Core'' (Some ''6'')
      = ''Core from '' @ upperApfel @ '' Kern''"
    by (simp only: names ded) (simp add: upperApfel_def)
  from inst2 hyp2 have bare: "contextQueryOf worldAllOk stateAtApfelKern ''Core'' (Some '''') = ''Core''"
    by blast
  from hyp names inc ded q car hyp2 bare show ?thesis by simp
qed

text \<open>
  Claim C1 as stated fails: for the path of the single item named Avocado and the query
  Avocado Seed, the ancestor is not blanked, and the context query is
  \<open>''Avocado Seed from Avocado''\<close>, not \<open>''Avocado Seed''\<close>.
\<close>

theorem contextQuery_query_not_in_dedup_counterexample:
  "contextStringOf worldAllOk [exAvocado] = ''Avocado'' \<and>
   contextQueryOf worldAllOk stateAtAvocado ''Avocado Seed'' (Some ''1'')
     = ''Avocado Seed from Avocado'' \<and>
   contextQueryOf worldAllOk stateAtAvocado ''Avocado Seed'' (Some ''1'') \<noteq> ''Avocado Seed''"
  by (simp add: contextQueryOf_def contextStringOf_def truthyStr_def sample_defs)

section \<open>Synthesis and the pipeline\<close>

lemma generateImage_SomeD: "generateImage w p r = Some x \<Longrightarrow> x \<noteq> [] \<and> apiKey w \<noteq> []"
  by (auto simp: generateImage_def split: if_splits option.splits)

lemma truthy_generateImage [simp]: "truthyStr (generateImage w p r) = generateImage w p r"
  by (cases "generateImage w p r") (auto simp: truthyStr_def dest: generateImage_SomeD)

lemma generateImage_noKey: "apiKey w = [] \<Longrightarrow> generateImage w p r = None"
  by (simp add: generateImage_def)

lemma generateVisualAssets_fast:
  "generateVisualAssets w subject ps fast ref opts =
     (case generateImage w (explodedFastPrompt w subject ps ref opts) ref of
        None \<Rightarrow> None
      | Some img \<Rightarrow> Some \<lparr>assembled = None, cutaway = None, exploded = img\<rparr>)"
  by (simp add: generateVisualAssets_def generateImage_noKey)

lemma generateVisualAssets_full:
  "generateVisualAssets w subject ps full ref opts =
     (case generateImage w (assembledPrompt subject ref opts) ref of
        None \<Rightarrow> None
      | Some a \<Rightarrow>
          Some \<lparr>assembled = Some a,
                cutaway = Some (case generateImage w (cutawayPrompt subject opts) (Some a) of
                                  None \<Rightarrow> a | Some c \<Rightarrow> c),
                exploded = (case generateImage w (explodedWithRefPrompt w subject ps opts) (Some a) of
                              None \<Rightarrow> a | Some e \<Rightarrow> e)\<rparr>)"
  by (simp add: generateVisualAssets_def generateImage_noKey orElse_def Let_def
      split: option.splits)

lemma fst_scanStep: "list_all isProgressEffect (fst (scanStep w st im))"
  by (simp add: scanStep_def scanningStatus_def split: option.splits)

lemma stage_simps [simp]:
  "stage (analyzingStatus q) = analyzing"
  "stage (renderingStatus m fs) = rendering_assembled"
  "stage (scanningStatus fs) = scanning"
  "stage completeStatus = complete"
  "stage failedStatus = error"
  "stage offlineStatus = error"
  "stage identifyingStatus = analyzing"
  "stage identifyFailedStatus = error"
  by (simp_all add: analyzingStatus_def renderingStatus_def scanningStatus_def
      completeStatus_def failedStatus_def offlineStatus_def identifyingStatus_def
      identifyFailedStatus_def)

lemma runPipeline_cases:
  obtains
    (analysisFailed)
      "analyzeStructure w (contextQueryOf w s q pa) (generationOptions s) = None"
      "runPipeline w s q pa ref =
         [Dispatch (SET_STATUS (analyzingStatus q)), Dispatch (SET_STATUS failedStatus)]"
  | (noRoot) sa pid pre where
      "analyzeStructure w (contextQueryOf w s q pa) (generationOptions s) = Some sa"
      "truthyStr pa = Some pid" "history s = []"
      "runPipeline w s q pa ref = pre @ [Dispatch (SET_STATUS failedStatus)]"
      "list_all isProgressEffect pre"
  | (committed) sa pre c h r where
      "analyzeStructure w (contextQueryOf w s q pa) (generationOptions s) = Some sa"
      "runPipeline w s q pa ref =
         pre @ [Dispatch (UPDATE_SESSION c h r), SaveExploration r,
                Dispatch (SET_STATUS completeStatus)]"
      "list_all isProgressEffect pre"
      "nameOf c = (case truthyStr pa of None \<Rightarrow> sa_name sa
                   | Some pid \<Rightarrow> contextQueryOf w s q pa)"
      "images (info c) =
         generateVisualAssets w (nameOf c) (sa_partNames sa) (generationMode s) ref
           (generationOptions s)"
      "parts (info c) = snd (scanStep w sa (images (info c)))"
proof (cases "analyzeStructure w (contextQueryOf w s q pa) (generationOptions s)")
  case None
  then have "runPipeline w s q pa ref =
      [Dispatch (SET_STATUS (analyzingStatus q)), Dispatch (SET_STATUS failedStatus)]"
    by (simp add: runPipeline_def)
  with None show ?thesis by (rule analysisFailed)
next
  case (Some sa)
  define effName where "effName =
    (case truthyStr pa of None \<Rightarrow> sa_name sa | Some pid \<Rightarrow> contextQueryOf w s q pa)"
  define imgs where "imgs = generateVisualAssets w effName (sa_partNames sa)
    (generationMode s) ref (generationOptions s)"
  define pre where "pre = [Dispatch (SET_STATUS (analyzingStatus q)),
    Dispatch (SET_STATUS (renderingStatus (generationMode s) (sa_facts sa)))]
    @ fst (scanStep w sa imgs)"
  have pre: "list_all isProgressEffect pre"
    by (simp add: pre_def fst_scanStep)
  show ?thesis
  proof (cases "truthyStr pa")
    case None
    define c where "c = compileItem w sa effName imgs (snd (scanStep w sa imgs))
      (sa_id sa) pa 0"
    have run: "runPipeline w s q pa ref =
      pre @ [Dispatch (UPDATE_SESSION c [c] c), SaveExploration c,
             Dispatch (SET_STATUS completeStatus)]"
      using Some None by (simp add: runPipeline_def Let_def pre_def imgs_def effName_def c_def)
    have "nameOf c = effName" "images (info c) = imgs"
      "parts (info c) = snd (scanStep w sa imgs)"
      by (simp_all add: c_def compileItem_def)
    then show ?thesis
      using committed [OF Some run pre] by (simp add: effName_def imgs_def)
  next
    case pid: (Some pid)
    show ?thesis
    proof (cases "history s")
      case Nil
      have "runPipeline w s q pa ref = pre @ [Dispatch (SET_STATUS failedStatus)]"
        using Some pid Nil by (simp add: runPipeline_def Let_def pre_def imgs_def effName_def)
      then show ?thesis using noRoot [OF Some pid Nil _ pre] by blast
    next
      case (Cons currentRoot rest)
      define dep where "dep = (case currentItem s of None \<Rightarrow> 0 | Some cur \<Rightarrow> depth (info cur) + 1)"
      define c where "c = compileItem w sa effName imgs (snd (scanStep w sa imgs))
        (idOf currentRoot) pa dep"
      define r where "r = updateItemInTree currentRoot pid c"
      define h where "h = (case findPathToNode r (idOf c) of Some path \<Rightarrow> path | None \<Rightarrow> [r, c])"
      have run: "runPipeline w s q pa ref =
        pre @ [Dispatch (UPDATE_SESSION c h r), SaveExploration r,
               Dispatch (SET_STATUS completeStatus)]"
        using Some pid Cons
        by (simp add: runPipeline_def Let_def pre_def imgs_def effName_def c_def r_def h_def dep_def
            split: option.splits)
      have "nameOf c = effName" "images (info c) = imgs"
        "parts (info c) = snd (scanStep w sa imgs)"
        by (simp_all add: c_def compileItem_def)
      then show ?thesis
        using committed [OF Some run pre] by (simp add: effName_def imgs_def)
    qed
  qed
qed

text \<open>
  Claim C6. In full mode, when the assembled view cannot be generated the synthesis step
  yields no bundle at all; when it can, the bundle holds the assembled image, and the
  cutaway and exploded views are each the generated image or, where that generation
  failed, the assembled image. Every bundle returned has all three views, none empty.
\<close>

theorem full_mode_all_views_or_none:
  "(generateImage w (assembledPrompt subject ref opts) ref = None \<longrightarrow>
      generateVisualAssets w subject ps full ref opts = None) \<and>
   (\<forall>a. generateImage w (assembledPrompt subject ref opts) ref = Some a \<longrightarrow>
      generateVisualAssets w subject ps full ref opts =
        Some \<lparr>assembled = Some a,
              cutaway = Some (case generateImage w (cutawayPrompt subject opts) (Some a) of
                                None \<Rightarrow> a | Some c \<Rightarrow> c),
              exploded = (case generateImage w (explodedWithRefPrompt w subject ps opts) (Some a) of
                            None \<Rightarrow> a | Some e \<Rightarrow> e)\<rparr>) \<and>
   (\<forall>b. generateVisualAssets w subject ps full ref opts = Some b \<longrightarrow>
      (\<exists>a c. assembled b = Some a \<and> a \<noteq> [] \<and> cutaway b = Some c \<and> c \<noteq> [] \<and>
             exploded b \<noteq> []))"
  by (auto simp: generateVisualAssets_full split: option.splits dest: generateImage_SomeD)

theorem full_mode_all_views_or_none_witness:
  "generateImage worldNoImages (assembledPrompt ''Car'' None (generationOptions initialState)) None = None \<and>
   generateVisualAssets worldNoImages ''Car'' [''Engine''] full None (generationOptions initialState) = None \<and>
   generateImage worldOnlyAssembled (assembledPrompt ''Car'' None (generationOptions initialState)) None
     = Some ''data:image/png;base64,AAAA'' \<and>
   generateVisualAssets worldOnlyAssembled ''Car'' [''Engine''] full None (generationOptions initialState) =
     Some \<lparr>assembled = Some ''data:image/png;base64,AAAA'',
           cutaway = Some ''data:image/png;base64,AAAA'',
           exploded = ''data:image/png;base64,AAAA''\<rparr>"
  using full_mode_all_views_or_none [of worldNoImages "''Car''" None "generationOptions initialState" "[''Engine'']"]
    full_mode_all_views_or_none [of worldOnlyAssembled "''Car''" None "generationOptions initialState" "[''Engine'']"]
  by (simp add: sample_defs world_defs generateImage_def assembledPrompt_def cutawayPrompt_def
      explodedWithRefPrompt_def truthyStr_def)

section \<open>Traces of a request\<close>

lemma progress_not_other:
  "isProgressEffect e \<Longrightarrow> \<not> isErrorEffect e \<and> \<not> isCommitEffect e"
  by (cases e rule: isProgressEffect.cases) auto

lemma progress_prefix_clean:
  "list_all isProgressEffect pre \<Longrightarrow>
     filter isErrorEffect pre = [] \<and> \<not> list_ex isCommitEffect pre \<and>
     \<not> list_ex isErrorEffect pre"
  by (induction pre) (auto dest: progress_not_other)

lemma applyEffects_append [simp]:
  "applyEffects s (a @ b) = applyEffects (applyEffects s a) b"
  by (simp add: applyEffects_def)

lemma applyEffects_Nil [simp]: "applyEffects s [] = s"
  by (simp add: applyEffects_def)

lemma applyEffects_Cons [simp]: "applyEffects s (e # es) = applyEffects (applyEffect s e) es"
  by (simp add: applyEffects_def)

lemma applyEffects_progress:
  "list_all isProgressEffect pre \<Longrightarrow>
     currentItem (applyEffects s pre) = currentItem s \<and>
     history (applyEffects s pre) = history s \<and>
     collection (applyEffects s pre) = collection s"
proof (induction pre arbitrary: s)
  case Nil
  show ?case by simp
next
  case (Cons e pre)
  from Cons.prems obtain st where e: "e = Dispatch (SET_STATUS st)"
    by (cases e rule: isProgressEffect.cases) auto
  from Cons.prems have "list_all isProgressEffect pre" by simp
  from Cons.IH [OF this, of "applyEffect s e"] e show ?case by simp
qed

lemma single_error_trace:
  assumes tr: "tr = pre @ [Dispatch (SET_STATUS st)]" and st: "stage st = error"
    and pre: "list_all isProgressEffect pre"
  shows "length (filter isErrorEffect tr) = 1 \<and> isErrorEffect (last tr) \<and>
         \<not> list_ex isCommitEffect tr \<and>
         currentItem (applyEffects s tr) = currentItem s \<and>
         history (applyEffects s tr) = history s \<and>
         collection (applyEffects s tr) = collection s \<and>
         status (applyEffects s tr) = st"
  using progress_prefix_clean [OF pre] applyEffects_progress [OF pre, of s] tr st
  by (simp add: list_ex_iff)

lemma explore_trace:
  "(\<exists>pre st. explore w s q pa ref = pre @ [Dispatch (SET_STATUS st)] \<and> stage st = error \<and>
       list_all isProgressEffect pre) \<or>
   \<not> list_ex isErrorEffect (explore w s q pa ref)"
proof (cases "isGenerating (status s)")
  case True
  then show ?thesis by (simp add: explore_def)
next
  case False
  show ?thesis
  proof (cases "memoryHit w s q pa")
    case (Some hit)
    with False show ?thesis by (simp add: explore_def)
  next
    case None
    show ?thesis
    proof (cases "isOffline s")
      case True
      with False None have "explore w s q pa ref = [] @ [Dispatch (SET_STATUS offlineStatus)]"
        by (simp add: explore_def)
      then show ?thesis
        by (intro disjI1 exI [of _ "[]"] exI [of _ offlineStatus]) simp
    next
      case online: False
      with False None have ex: "explore w s q pa ref = runPipeline w s q pa ref"
        by (simp add: explore_def)
      show ?thesis
      proof (cases rule: runPipeline_cases [of w s q pa ref])
        case analysisFailed
        then have "runPipeline w s q pa ref =
            [Dispatch (SET_STATUS (analyzingStatus q))] @ [Dispatch (SET_STATUS failedStatus)]"
          by simp
        moreover have "list_all isProgressEffect [Dispatch (SET_STATUS (analyzingStatus q))]"
          by simp
        ultimately show ?thesis unfolding ex by (metis stage_simps(5))
      next
        case (noRoot sa pid pre)
        then show ?thesis unfolding ex by (metis stage_simps(5))
      next
        case (committed sa pre c h r)
        then have "\<not> list_ex isErrorEffect (runPipeline w s q pa ref)"
          using progress_prefix_clean [of pre] by (simp add: list_ex_iff)
        then show ?thesis unfolding ex by simp
      qed
    qed
  qed
qed

lemma explore_commitD:
  assumes "Dispatch (UPDATE_SESSION c h r) \<in> set (explore w s q pa ref)"
  shows "\<exists>sa. analyzeStructure w (contextQueryOf w s q pa) (generationOptions s) = Some sa \<and>
     nameOf c = (case truthyStr pa of None \<Rightarrow> sa_name sa | Some pid \<Rightarrow> contextQueryOf w s q pa) \<and>
     images (info c) =
       generateVisualAssets w (nameOf c) (sa_partNames sa) (generationMode s) ref
         (generationOptions s) \<and>
     parts (info c) = snd (scanStep w sa (images (info c))) \<and>
     last (explore w s q pa ref) = Dispatch (SET_STATUS completeStatus)"
proof -
  have ex: "explore w s q pa ref = runPipeline w s q pa ref"
    using assms by (auto simp: explore_def split: if_splits option.splits)
  have notin: "Dispatch (UPDATE_SESSION c h r) \<notin> set pre" if "list_all isProgressEffect pre" for pre
    using that by (auto simp: list_all_iff)
  show ?thesis
  proof (cases rule: runPipeline_cases [of w s q pa ref])
    case analysisFailed
    with assms ex show ?thesis by simp
  next
    case (noRoot sa pid pre)
    with assms ex notin [of pre] show ?thesis by simp
  next
    case (committed sa pre c' h' r')
    with assms ex notin [of pre] have "c = c'" by simp
    with committed ex show ?thesis by simp
  qed
qed


lemma run_root:
  "explore worldAllOk initialState ''Avocado'' None None =
     [Dispatch (SET_STATUS (analyzingStatus ''Avocado'')),
      Dispatch (SET_STATUS (renderingStatus full [''Rich in fat.''])),
      Dispatch (SET_STATUS (scanningStatus [''Rich in fat.''])),
      Dispatch (UPDATE_SESSION rootItem [rootItem] rootItem),
      SaveExploration rootItem,
      Dispatch (SET_STATUS completeStatus)]"
  by (simp add: run_defs sample_defs world_defs)

lemma run_child:
  "explore worldAllOk stateAtAvocado ''Seed'' (Some ''1'') None =
     [Dispatch (SET_STATUS (analyzingStatus ''Seed'')),
      Dispatch (SET_STATUS (renderingStatus full [''Rich in fat.''])),
      Dispatch (SET_STATUS (scanningStatus [''Rich in fat.''])),
      Dispatch (UPDATE_SESSION seedItem [sampleItem ''1'' ''Avocado'' [seedItem], seedItem]
         (sampleItem ''1'' ''Avocado'' [seedItem])),
      SaveExploration (sampleItem ''1'' ''Avocado'' [seedItem]),
      Dispatch (SET_STATUS completeStatus)]"
  by (simp add: run_defs sample_defs world_defs)

lemma runPipeline_completes:
  assumes an: "analyzeStructure w (contextQueryOf w s q pa) (generationOptions s) = Some sa"
    and ok: "truthyStr pa = None \<or> history s \<noteq> []"
  shows "\<exists>c h r. runPipeline w s q pa ref =
           [Dispatch (SET_STATUS (analyzingStatus q)),
            Dispatch (SET_STATUS (renderingStatus (generationMode s) (sa_facts sa)))]
           @ fst (scanStep w sa (images (info c)))
           @ [Dispatch (UPDATE_SESSION c h r), SaveExploration r,
              Dispatch (SET_STATUS completeStatus)] \<and>
         nameOf c = (case truthyStr pa of None \<Rightarrow> sa_name sa
                     | Some pid \<Rightarrow> contextQueryOf w s q pa) \<and>
         images (info c) =
           generateVisualAssets w (nameOf c) (sa_partNames sa) (generationMode s) ref
             (generationOptions s) \<and>
         parts (info c) = snd (scanStep w sa (images (info c)))"
proof -
  define effName where "effName =
    (case truthyStr pa of None \<Rightarrow> sa_name sa | Some pid \<Rightarrow> contextQueryOf w s q pa)"
  define imgs where "imgs = generateVisualAssets w effName (sa_partNames sa)
    (generationMode s) ref (generationOptions s)"
  show ?thesis
  proof (cases "truthyStr pa")
    case None
    define c where "c = compileItem w sa effName imgs (snd (scanStep w sa imgs))
      (sa_id sa) pa 0"
    have fields: "nameOf c = effName" "images (info c) = imgs"
      "parts (info c) = snd (scanStep w sa imgs)"
      by (simp_all add: c_def compileItem_def)
    have "runPipeline w s q pa ref =
           [Dispatch (SET_STATUS (analyzingStatus q)),
            Dispatch (SET_STATUS (renderingStatus (generationMode s) (sa_facts sa)))]
           @ fst (scanStep w sa imgs)
           @ [Dispatch (UPDATE_SESSION c [c] c), SaveExploration c,
              Dispatch (SET_STATUS completeStatus)]"
      using an None by (simp add: runPipeline_def Let_def imgs_def effName_def c_def)
    with fields show ?thesis
      by (intro exI [of _ c] exI [of _ "[c]"]) (simp add: effName_def imgs_def)
  next
    case (Some pid)
    with ok obtain currentRoot rest where hist: "history s = currentRoot # rest"
      by (cases "history s") auto
    define dep where "dep =
      (case currentItem s of None \<Rightarrow> 0 | Some cur \<Rightarrow> depth (info cur) + 1)"
    define c where "c = compileItem w sa effName imgs (snd (scanStep w sa imgs))
      (idOf currentRoot) pa dep"
    define r where "r = updateItemInTree currentRoot pid c"
    define h where "h =
      (case findPathToNode r (idOf c) of Some path \<Rightarrow> path | None \<Rightarrow> [r, c])"
    have fields: "nameOf c = effName" "images (info c) = imgs"
      "parts (info c) = snd (scanStep w sa imgs)"
      by (simp_all add: c_def compileItem_def)
    have "runPipeline w s q pa ref =
           [Dispatch (SET_STATUS (analyzingStatus q)),
            Dispatch (SET_STATUS (renderingStatus (generationMode s) (sa_facts sa)))]
           @ fst (scanStep w sa imgs)
           @ [Dispatch (UPDATE_SESSION c h r), SaveExploration r,
              Dispatch (SET_STATUS completeStatus)]"
      using an Some hist
      by (simp add: runPipeline_def Let_def imgs_def effName_def c_def r_def h_def dep_def
          split: option.splits)
    with fields show ?thesis
      by (intro exI [of _ c] exI [of _ h] exI [of _ r]) (simp add: effName_def imgs_def)
  qed
qed

lemma applyEffects_commit:
  assumes "list_all isProgressEffect pre"
  shows "currentItem (applyEffects s (pre @ [Dispatch (UPDATE_SESSION c h r), SaveExploration r,
            Dispatch (SET_STATUS completeStatus)])) = Some c \<and>
         history (applyEffects s (pre @ [Dispatch (UPDATE_SESSION c h r), SaveExploration r,
            Dispatch (SET_STATUS completeStatus)])) = h \<and>
         status (applyEffects s (pre @ [Dispatch (UPDATE_SESSION c h r), SaveExploration r,
            Dispatch (SET_STATUS completeStatus)])) = completeStatus"
  by (simp add: Let_def)

lemma explore_completes:
  assumes guard: "\<not> isGenerating (status s)" "memoryHit w s q pa = None" "\<not> isOffline s"
    and an: "analyzeStructure w (contextQueryOf w s q pa) (generationOptions s) = Some sa"
    and ok: "truthyStr pa = None \<or> history s \<noteq> []"
  shows "\<exists>c h r. explore w s q pa ref =
           [Dispatch (SET_STATUS (analyzingStatus q)),
            Dispatch (SET_STATUS (renderingStatus (generationMode s) (sa_facts sa)))]
           @ fst (scanStep w sa (images (info c)))
           @ [Dispatch (UPDATE_SESSION c h r), SaveExploration r,
              Dispatch (SET_STATUS completeStatus)] \<and>
         nameOf c = (case truthyStr pa of None \<Rightarrow> sa_name sa
                     | Some pid \<Rightarrow> contextQueryOf w s q pa) \<and>
         images (info c) =
           generateVisualAssets w (nameOf c) (sa_partNames sa) (generationMode s) ref
             (generationOptions s) \<and>
         parts (info c) = snd (scanStep w sa (images (info c))) \<and>
         \<not> list_ex isErrorEffect (explore w s q pa ref) \<and>
         list_ex isCommitEffect (explore w s q pa ref) \<and>
         last (explore w s q pa ref) = Dispatch (SET_STATUS completeStatus) \<and>
         currentItem (stateAfterExplore w s q pa ref) = Some c \<and>
         history (stateAfterExplore w s q pa ref) = h \<and>
         status (stateAfterExplore w s q pa ref) = completeStatus"
proof -
  from guard have ex: "explore w s q pa ref = runPipeline w s q pa ref"
    by (simp add: explore_def)
  from runPipeline_completes [OF an ok, of ref] obtain c h r where
    run: "runPipeline w s q pa ref =
           [Dispatch (SET_STATUS (analyzingStatus q)),
            Dispatch (SET_STATUS (renderingStatus (generationMode s) (sa_facts sa)))]
           @ fst (scanStep w sa (images (info c)))
           @ [Dispatch (UPDATE_SESSION c h r), SaveExploration r,
              Dispatch (SET_STATUS completeStatus)]"
    and fields: "nameOf c = (case truthyStr pa of None \<Rightarrow> sa_name sa
                     | Some pid \<Rightarrow> contextQueryOf w s q pa)"
      "images (info c) =
           generateVisualAssets w (nameOf c) (sa_partNames sa) (generationMode s) ref
             (generationOptions s)"
      "parts (info c) = snd (scanStep w sa (images (info c)))"
    by blast
  define pre where "pre = [Dispatch (SET_STATUS (analyzingStatus q)),
            Dispatch (SET_STATUS (renderingStatus (generationMode s) (sa_facts sa)))]
           @ fst (scanStep w sa (images (info c)))"
  have pre: "list_all isProgressEffect pre"
    by (simp add: pre_def fst_scanStep)
  have run': "explore w s q pa ref = pre @ [Dispatch (UPDATE_SESSION c h r), SaveExploration r,
              Dispatch (SET_STATUS completeStatus)]"
    using ex run by (simp add: pre_def)
  have noerr: "\<not> list_ex isErrorEffect (explore w s q pa ref)"
    using progress_prefix_clean [OF pre] by (simp add: run' list_ex_iff)
  have commit: "list_ex isCommitEffect (explore w s q pa ref)"
    by (simp add: run')
  have lst: "last (explore w s q pa ref) = Dispatch (SET_STATUS completeStatus)"
    by (simp add: run')
  have after: "currentItem (stateAfterExplore w s q pa ref) = Some c \<and>
      history (stateAfterExplore w s q pa ref) = h \<and>
      status (stateAfterExplore w s q pa ref) = completeStatus"
    unfolding stateAfterExplore_def run' by (rule applyEffects_commit [OF pre])
  from ex run fields noerr commit lst after show ?thesis
    by (intro exI [of _ c] exI [of _ h] exI [of _ r]) simp
qed

section \<open>The compiled item\<close>

text \<open>
  Claim C9. Whenever a request commits an item, the analysis succeeded on the context
  query, and the item's name is the context query if the parent id is truthy (a child
  request) and the name returned by the analysis otherwise (a root request).
\<close>

theorem child_name_is_context_query:
  "Dispatch (UPDATE_SESSION c h r) \<in> set (explore w state query parentArg ref) \<Longrightarrow>
     \<exists>sa. analyzeStructure w (contextQueryOf w state query parentArg) (generationOptions state)
            = Some sa \<and>
          nameOf c = (case truthyStr parentArg of
                        Some pid \<Rightarrow> contextQueryOf w state query parentArg
                      | None \<Rightarrow> sa_name sa)"
  using explore_commitD [of c h r w state query parentArg ref]
  by (auto split: option.splits)

theorem child_name_is_context_query_witness:
  "Dispatch (UPDATE_SESSION seedItem [sampleItem ''1'' ''Avocado'' [seedItem], seedItem]
      (sampleItem ''1'' ''Avocado'' [seedItem]))
     \<in> set (explore worldAllOk stateAtAvocado ''Seed'' (Some ''1'') None) \<and>
   nameOf seedItem = ''Seed from Avocado'' \<and>
   contextQueryOf worldAllOk stateAtAvocado ''Seed'' (Some ''1'') = ''Seed from Avocado'' \<and>
   Dispatch (UPDATE_SESSION rootItem [rootItem] rootItem)
     \<in> set (explore worldAllOk initialState ''Avocado'' None None) \<and>
   nameOf rootItem = ''Avocado Fruit'' \<and>
   map_option sa_name (analyzeStructure worldAllOk ''Avocado'' (generationOptions initialState))
     = Some ''Avocado Fruit''"
  using child_name_is_context_query [of seedItem "[sampleItem ''1'' ''Avocado'' [seedItem], seedItem]"
      "sampleItem ''1'' ''Avocado'' [seedItem]" worldAllOk stateAtAvocado "''Seed''" "Some ''1''" None]
    child_name_is_context_query [of rootItem "[rootItem]" rootItem worldAllOk initialState
      "''Avocado''" None None]
  by (simp add: run_child run_root)
     (simp add: run_defs sample_defs)

text \<open>
  Claim C2, as amended. In fast mode, a run that commits an item ends with status
  complete, and the item's image bundle is either absent or holds a non-empty exploded
  image and nothing else. A failed exploded-view generation does not fail the synthesis
  step or the run: when the request passes the guards, the analysis succeeds, and the
  request is a root request or the history is non-empty, the run dispatches the analyzing
  and rendering statuses, commits an item without images whose parts have the synthetic
  placement, saves it, and ends with status complete.
\<close>

theorem fast_mode_bundle_absent_or_exploded:
  "(generationMode state = fast \<and>
    Dispatch (UPDATE_SESSION c h r) \<in> set (explore w state query parentArg ref) \<longrightarrow>
      last (explore w state query parentArg ref) = Dispatch (SET_STATUS completeStatus) \<and>
      (\<exists>sa. analyzeStructure w (contextQueryOf w state query parentArg) (generationOptions state)
              = Some sa \<and>
         (case generateImage w
                 (explodedFastPrompt w (nameOf c) (sa_partNames sa) ref (generationOptions state))
                 ref of
            None \<Rightarrow> images (info c) = None \<and>
                    parts (info c) = fallbackParts w (sa_partNames sa)
          | Some img \<Rightarrow> img \<noteq> [] \<and>
                    images (info c)
                      = Some \<lparr>assembled = None, cutaway = None, exploded = img\<rparr>))) \<and>
   (generationMode state = fast \<and>
    \<not> isGenerating (status state) \<and> memoryHit w state query parentArg = None \<and>
    \<not> isOffline state \<and>
    analyzeStructure w (contextQueryOf w state query parentArg) (generationOptions state)
      = Some sa \<and>
    (truthyStr parentArg = None \<or> history state \<noteq> []) \<and>
    generateImage w
      (explodedFastPrompt w
         (case truthyStr parentArg of None \<Rightarrow> sa_name sa
          | Some pid \<Rightarrow> contextQueryOf w state query parentArg)
         (sa_partNames sa) ref (generationOptions state))
      ref = None \<longrightarrow>
      (\<exists>c' h' r'. explore w state query parentArg ref =
           [Dispatch (SET_STATUS (analyzingStatus query)),
            Dispatch (SET_STATUS (renderingStatus fast (sa_facts sa))),
            Dispatch (UPDATE_SESSION c' h' r'), SaveExploration r',
            Dispatch (SET_STATUS completeStatus)] \<and>
         images (info c') = None \<and>
         parts (info c') = fallbackParts w (sa_partNames sa) \<and>
         currentItem (stateAfterExplore w state query parentArg ref) = Some c' \<and>
         status (stateAfterExplore w state query parentArg ref) = completeStatus))"
proof -
  have shape: "last (explore w state query parentArg ref) = Dispatch (SET_STATUS completeStatus) \<and>
      (\<exists>sa. analyzeStructure w (contextQueryOf w state query parentArg) (generationOptions state)
              = Some sa \<and>
         (case generateImage w
                 (explodedFastPrompt w (nameOf c) (sa_partNames sa) ref (generationOptions state))
                 ref of
            None \<Rightarrow> images (info c) = None \<and>
                    parts (info c) = fallbackParts w (sa_partNames sa)
          | Some img \<Rightarrow> img \<noteq> [] \<and>
                    images (info c)
                      = Some \<lparr>assembled = None, cutaway = None, exploded = img\<rparr>))"
    if a: "generationMode state = fast \<and>
      Dispatch (UPDATE_SESSION c h r) \<in> set (explore w state query parentArg ref)"
  proof -
    from a have fast: "generationMode state = fast"
      and mem: "Dispatch (UPDATE_SESSION c h r) \<in> set (explore w state query parentArg ref)"
      by simp_all
    from explore_commitD [OF mem] obtain sa where
      sa: "analyzeStructure w (contextQueryOf w state query parentArg) (generationOptions state)
             = Some sa"
      and im: "images (info c) =
         generateVisualAssets w (nameOf c) (sa_partNames sa) (generationMode state) ref
           (generationOptions state)"
      and ps: "parts (info c) = snd (scanStep w sa (images (info c)))"
      and lst: "last (explore w state query parentArg ref) = Dispatch (SET_STATUS completeStatus)"
      by blast
    have "case generateImage w
                  (explodedFastPrompt w (nameOf c) (sa_partNames sa) ref (generationOptions state))
                  ref of
             None \<Rightarrow> images (info c) = None \<and>
                     parts (info c) = fallbackParts w (sa_partNames sa)
           | Some img \<Rightarrow> img \<noteq> [] \<and>
                     images (info c)
                       = Some \<lparr>assembled = None, cutaway = None, exploded = img\<rparr>"
    proof (cases "generateImage w
                  (explodedFastPrompt w (nameOf c) (sa_partNames sa) ref (generationOptions state))
                  ref")
      case None
      with im fast have "images (info c) = None" by (simp add: generateVisualAssets_fast)
      with ps None show ?thesis by (simp add: scanStep_def)
    next
      case (Some img)
      with im fast generateImage_SomeD [OF Some] show ?thesis
        by (simp add: generateVisualAssets_fast)
    qed
    with sa lst show ?thesis by blast
  qed
  have completes: "\<exists>c' h' r'. explore w state query parentArg ref =
           [Dispatch (SET_STATUS (analyzingStatus query)),
            Dispatch (SET_STATUS (renderingStatus fast (sa_facts sa))),
            Dispatch (UPDATE_SESSION c' h' r'), SaveExploration r',
            Dispatch (SET_STATUS completeStatus)] \<and>
         images (info c') = None \<and>
         parts (info c') = fallbackParts w (sa_partNames sa) \<and>
         currentItem (stateAfterExplore w state query parentArg ref) = Some c' \<and>
         status (stateAfterExplore w state query parentArg ref) = completeStatus"
    if b: "generationMode state = fast \<and>
      \<not> isGenerating (status state) \<and> memoryHit w state query parentArg = None \<and>
      \<not> isOffline state \<and>
      analyzeStructure w (contextQueryOf w state query parentArg) (generationOptions state)
        = Some sa \<and>
      (truthyStr parentArg = None \<or> history state \<noteq> []) \<and>
      generateImage w
        (explodedFastPrompt w
           (case truthyStr parentArg of None \<Rightarrow> sa_name sa
            | Some pid \<Rightarrow> contextQueryOf w state query parentArg)
           (sa_partNames sa) ref (generationOptions state))
        ref = None"
  proof -
    from b explore_completes [of state w query parentArg sa ref] obtain c' h' r' where
      run: "explore w state query parentArg ref =
           [Dispatch (SET_STATUS (analyzingStatus query)),
            Dispatch (SET_STATUS (renderingStatus (generationMode state) (sa_facts sa)))]
           @ fst (scanStep w sa (images (info c')))
           @ [Dispatch (UPDATE_SESSION c' h' r'), SaveExploration r',
              Dispatch (SET_STATUS completeStatus)]"
      and nm: "nameOf c' = (case truthyStr parentArg of None \<Rightarrow> sa_name sa
                     | Some pid \<Rightarrow> contextQueryOf w state query parentArg)"
      and im: "images (info c') =
           generateVisualAssets w (nameOf c') (sa_partNames sa) (generationMode state) ref
             (generationOptions state)"
      and ps: "parts (info c') = snd (scanStep w sa (images (info c')))"
      and after: "currentItem (stateAfterExplore w state query parentArg ref) = Some c'"
        "status (stateAfterExplore w state query parentArg ref) = completeStatus"
      by blast
    from b have "generationMode state = fast" by simp
    with im nm b have none: "images (info c') = None"
      by (simp add: generateVisualAssets_fast)
    with ps have parts: "parts (info c') = fallbackParts w (sa_partNames sa)"
      by (simp add: scanStep_def)
    from run none \<open>generationMode state = fast\<close> have "explore w state query parentArg ref =
           [Dispatch (SET_STATUS (analyzingStatus query)),
            Dispatch (SET_STATUS (renderingStatus fast (sa_facts sa))),
            Dispatch (UPDATE_SESSION c' h' r'), SaveExploration r',
            Dispatch (SET_STATUS completeStatus)]"
      by (simp add: scanStep_def)
    with none parts after show ?thesis by blast
  qed
  from shape completes show ?thesis by blast
qed

theorem fast_mode_bundle_absent_or_exploded_witness:
  "generationMode fastState = fast \<and>
   Dispatch (UPDATE_SESSION noPartsItem [noPartsItem] noPartsItem)
     \<in> set (explore worldScanFails fastState ''Avocado'' None None) \<and>
   map_option exploded (images (info noPartsItem)) = Some sampleImage \<and>
   \<not> isGenerating (status fastState) \<and> memoryHit worldNoImages fastState ''Avocado'' None = None \<and>
   \<not> isOffline fastState \<and>
   analyzeStructure worldNoImages (contextQueryOf worldNoImages fastState ''Avocado'' None)
     (generationOptions fastState) = Some sampleStructure \<and>
   truthyStr None = None \<and>
   generateImage worldNoImages
     (explodedFastPrompt worldNoImages ''Avocado Fruit'' [''Skin'', ''Seed''] None
        (generationOptions fastState)) None = None \<and>
   explore worldNoImages fastState ''Avocado'' None None =
     [Dispatch (SET_STATUS (analyzingStatus ''Avocado'')),
      Dispatch (SET_STATUS (renderingStatus fast [''Rich in fat.''])),
      Dispatch (UPDATE_SESSION bareItem [bareItem] bareItem), SaveExploration bareItem,
      Dispatch (SET_STATUS completeStatus)] \<and>
   images (info bareItem) = None \<and>
   history fastStateAtAvocado \<noteq> [] \<and>
   status (stateAfterExplore worldNoImages fastStateAtAvocado ''Seed'' (Some ''1'') None)
     = completeStatus"
proof -
  have mode: "generationMode fastState = fast" "generationMode fastStateAtAvocado = fast"
    by (simp_all add: fastStateAtAvocado_def sample_defs)
  have scanrun: "Dispatch (UPDATE_SESSION noPartsItem [noPartsItem] noPartsItem)
     \<in> set (explore worldScanFails fastState ''Avocado'' None None)"
    by (simp add: run_defs2 sample_defs world_defs)
  have img: "map_option exploded (images (info noPartsItem)) = Some sampleImage"
    by (simp add: noPartsItem_def compiledInfo_def)
  have guard: "\<not> isGenerating (status fastState)" "\<not> isOffline fastState"
    "memoryHit worldNoImages fastState ''Avocado'' None = None" "truthyStr None = None"
    by (simp_all add: memoryHit_def truthyStr_def sample_defs)
  have an: "analyzeStructure worldNoImages (contextQueryOf worldNoImages fastState ''Avocado'' None)
     (generationOptions fastState) = Some sampleStructure"
    by (simp add: analyzeStructure_def contextQueryOf_def truthyStr_def orElse_def
        sampleStructure_def showNat.simps sample_defs)
  have gen: "generateImage worldNoImages p r = None" for p r
    by (simp add: generateImage_def worldNoImages_def)
  have run: "explore worldNoImages fastState ''Avocado'' None None =
     [Dispatch (SET_STATUS (analyzingStatus ''Avocado'')),
      Dispatch (SET_STATUS (renderingStatus fast [''Rich in fat.''])),
      Dispatch (UPDATE_SESSION bareItem [bareItem] bareItem), SaveExploration bareItem,
      Dispatch (SET_STATUS completeStatus)]"
    by (simp add: run_defs2 sample_defs world_defs)
  have bare: "images (info bareItem) = None"
    by (simp add: bareItem_def)
  have guard2: "\<not> isGenerating (status fastStateAtAvocado)" "\<not> isOffline fastStateAtAvocado"
    "memoryHit worldNoImages fastStateAtAvocado ''Seed'' (Some ''1'') = None"
    "history fastStateAtAvocado \<noteq> []"
    by (simp_all add: memoryHit_def truthyStr_def fastStateAtAvocado_def sample_defs)
  have an2: "analyzeStructure worldNoImages
      (contextQueryOf worldNoImages fastStateAtAvocado ''Seed'' (Some ''1''))
      (generationOptions fastStateAtAvocado) = Some sampleStructure"
    by (simp add: analyzeStructure_def orElse_def truthyStr_def sampleStructure_def
        showNat.simps sample_defs)
  note inst = fast_mode_bundle_absent_or_exploded [of fastState noPartsItem "[noPartsItem]"
      noPartsItem worldScanFails "''Avocado''" None None sampleStructure]
  note inst2 = fast_mode_bundle_absent_or_exploded [of fastStateAtAvocado bareItem "[bareItem]"
      bareItem worldNoImages "''Seed''" "Some ''1''" None sampleStructure]
  from inst mode scanrun have
    "last (explore worldScanFails fastState ''Avocado'' None None)
       = Dispatch (SET_STATUS completeStatus)"
    by blast
  from inst2 mode guard2 an2 gen have
    fin: "status (stateAfterExplore worldNoImages fastStateAtAvocado ''Seed'' (Some ''1'') None)
      = completeStatus"
    by blast
  from mode scanrun img guard an gen run bare guard2 fin show ?thesis by simp
qed

text \<open>
  Claim C2 as stated fails: in fast mode, with the exploded view not generated, the run
  ends with status complete and commits an item without images.
\<close>

theorem fast_mode_imageless_item_counterexample:
  "generationMode fastState = fast \<and>
   generateImage worldNoImages
     (explodedFastPrompt worldNoImages ''Avocado Fruit'' [''Skin'', ''Seed''] None
        (generationOptions fastState))
     None = None \<and>
   stage (status (stateAfterExplore worldNoImages fastState ''Avocado'' None None)) = complete \<and>
   currentItem (stateAfterExplore worldNoImages fastState ''Avocado'' None None) = Some bareItem \<and>
   images (info bareItem) = None"
  by (simp add: run_defs2 sample_defs world_defs)

text \<open>
  Claim C3, at an input where the code departs from it: fast mode, the exploded image is
  generated, and the coordinate detection call fails. The analysis names two parts,
  detection returns the empty list, and the committed item has no parts: the synthetic
  placement is applied only when there is no exploded image.
\<close>

theorem scan_failure_leaves_no_parts:
  "map_option sa_partNames
     (analyzeStructure worldScanFails ''Avocado'' (generationOptions fastState))
     = Some [''Skin'', ''Seed''] \<and>
   detectPartCoordinates worldScanFails sampleImage [''Skin'', ''Seed''] = [] \<and>
   explore worldScanFails fastState ''Avocado'' None None =
     [Dispatch (SET_STATUS (analyzingStatus ''Avocado'')),
      Dispatch (SET_STATUS (renderingStatus fast [''Rich in fat.''])),
      Dispatch (SET_STATUS (scanningStatus [''Rich in fat.''])),
      Dispatch (UPDATE_SESSION noPartsItem [noPartsItem] noPartsItem),
      SaveExploration noPartsItem,
      Dispatch (SET_STATUS completeStatus)] \<and>
   parts (info noPartsItem) = []"
  by (simp add: run_defs2 sample_defs world_defs)

section \<open>Memory hits and the offline check\<close>

















section \<open>Failure of a request\<close>

lemma exploreFromDataUrl_trace:
  "(\<exists>pre st. exploreFromDataUrl w s img = pre @ [Dispatch (SET_STATUS st)] \<and> stage st = error \<and>
       list_all isProgressEffect pre) \<or>
   \<not> list_ex isErrorEffect (exploreFromDataUrl w s img)"
proof (cases "isGenerating (status s) \<or> isOffline s")
  case True
  then show ?thesis
    by (auto simp: exploreFromDataUrl_def intro!: exI [of _ "[]"] exI [of _ offlineStatus])
next
  case False
  show ?thesis
  proof (cases "identifyMainObject w img")
    case None
    with False have "exploreFromDataUrl w s img =
        [Dispatch (SET_STATUS identifyingStatus)] @ [Dispatch (SET_STATUS identifyFailedStatus)]"
      by (simp add: exploreFromDataUrl_def)
    then show ?thesis
      by (intro disjI1 exI [of _ "[Dispatch (SET_STATUS identifyingStatus)]"]
          exI [of _ identifyFailedStatus]) simp
  next
    case (Some objectName)
    with False have eq: "exploreFromDataUrl w s img =
        Dispatch (SET_STATUS identifyingStatus) # explore w s objectName None (Some img)"
      by (simp add: exploreFromDataUrl_def)
    from explore_trace [of w s objectName None "Some img"] show ?thesis
    proof
      assume "\<exists>pre st. explore w s objectName None (Some img) = pre @ [Dispatch (SET_STATUS st)] \<and>
        stage st = error \<and> list_all isProgressEffect pre"
      then obtain pre st where
        "explore w s objectName None (Some img) = pre @ [Dispatch (SET_STATUS st)]"
        "stage st = error" "list_all isProgressEffect pre" by blast
      then show ?thesis unfolding eq
        by (intro disjI1 exI [of _ "Dispatch (SET_STATUS identifyingStatus) # pre"] exI [of _ st])
           simp
    next
      assume "\<not> list_ex isErrorEffect (explore w s objectName None (Some img))"
      then show ?thesis unfolding eq by simp
    qed
  qed
qed

lemma error_trace_props:
  assumes shape: "(\<exists>pre st. tr = pre @ [Dispatch (SET_STATUS st)] \<and> stage st = error \<and>
       list_all isProgressEffect pre) \<or> \<not> list_ex isErrorEffect tr"
    and err: "list_ex isErrorEffect tr"
  shows "length (filter isErrorEffect tr) = 1 \<and> isErrorEffect (last tr) \<and>
         \<not> list_ex isCommitEffect tr \<and>
         currentItem (applyEffects s tr) = currentItem s \<and>
         history (applyEffects s tr) = history s \<and>
         collection (applyEffects s tr) = collection s \<and>
         stage (status (applyEffects s tr)) = error"
proof -
  from shape err obtain pre st where "tr = pre @ [Dispatch (SET_STATUS st)]" "stage st = error"
    "list_all isProgressEffect pre" by blast
  from single_error_trace [OF this, of s] \<open>stage st = error\<close> show ?thesis by simp
qed

text \<open>
  Claim C4, as amended. If the analysis stage fails, the request dispatches the analyzing
  status and then one error status, and nothing else; if the identification of an image
  fails, the request dispatches the identifying status and then one error status; a child
  request whose analysis succeeds while the history is empty also ends in an error
  status. Whenever the trace of a request contains an error status it contains exactly
  one, as its last effect, it contains no session update and no save, and the current
  item, the history and the collection after the request are those before it. A synthesis
  or scan stage that fails is not fatal: whenever the request passes the guards, the
  analysis succeeds, and the request is a root request or the history is non-empty, the
  trace has no error status, ends with status complete and commits the compiled item,
  whatever the synthesis and scan stages returned.
\<close>

theorem fatal_failure_commits_nothing:
  "(\<not> isGenerating (status state) \<and> memoryHit w state query parentArg = None \<and>
    \<not> isOffline state \<and>
    analyzeStructure w (contextQueryOf w state query parentArg) (generationOptions state) = None
      \<longrightarrow> explore w state query parentArg ref =
            [Dispatch (SET_STATUS (analyzingStatus query)), Dispatch (SET_STATUS failedStatus)]) \<and>
   (\<not> isGenerating (status state) \<and> memoryHit w state query parentArg = None \<and>
    \<not> isOffline state \<and>
    analyzeStructure w (contextQueryOf w state query parentArg) (generationOptions state)
      = Some sa \<and>
    truthyStr parentArg = Some pid \<and> history state = []
      \<longrightarrow> list_ex isErrorEffect (explore w state query parentArg ref)) \<and>
   (list_ex isErrorEffect (explore w state query parentArg ref) \<longrightarrow>
      length (filter isErrorEffect (explore w state query parentArg ref)) = 1 \<and>
      isErrorEffect (last (explore w state query parentArg ref)) \<and>
      \<not> list_ex isCommitEffect (explore w state query parentArg ref) \<and>
      currentItem (stateAfterExplore w state query parentArg ref) = currentItem state \<and>
      history (stateAfterExplore w state query parentArg ref) = history state \<and>
      collection (stateAfterExplore w state query parentArg ref) = collection state \<and>
      stage (status (stateAfterExplore w state query parentArg ref)) = error) \<and>
   (\<not> isGenerating (status state) \<and> \<not> isOffline state \<and> identifyMainObject w base64 = None
      \<longrightarrow> exploreFromDataUrl w state base64 =
            [Dispatch (SET_STATUS identifyingStatus),
             Dispatch (SET_STATUS identifyFailedStatus)]) \<and>
   (list_ex isErrorEffect (exploreFromDataUrl w state base64) \<longrightarrow>
      length (filter isErrorEffect (exploreFromDataUrl w state base64)) = 1 \<and>
      isErrorEffect (last (exploreFromDataUrl w state base64)) \<and>
      \<not> list_ex isCommitEffect (exploreFromDataUrl w state base64) \<and>
      currentItem (stateAfterExploreFromDataUrl w state base64) = currentItem state \<and>
      history (stateAfterExploreFromDataUrl w state base64) = history state \<and>
      collection (stateAfterExploreFromDataUrl w state base64) = collection state \<and>
      stage (status (stateAfterExploreFromDataUrl w state base64)) = error) \<and>
   (\<not> isGenerating (status state) \<and> memoryHit w state query parentArg = None \<and>
    \<not> isOffline state \<and>
    analyzeStructure w (contextQueryOf w state query parentArg) (generationOptions state)
      = Some sa \<and>
    (truthyStr parentArg = None \<or> history state \<noteq> []) \<longrightarrow>
      \<not> list_ex isErrorEffect (explore w state query parentArg ref) \<and>
      list_ex isCommitEffect (explore w state query parentArg ref) \<and>
      last (explore w state query parentArg ref) = Dispatch (SET_STATUS completeStatus) \<and>
      status (stateAfterExplore w state query parentArg ref) = completeStatus \<and>
      (\<exists>c h r. Dispatch (UPDATE_SESSION c h r) \<in> set (explore w state query parentArg ref) \<and>
           currentItem (stateAfterExplore w state query parentArg ref) = Some c \<and>
           history (stateAfterExplore w state query parentArg ref) = h \<and>
           images (info c) =
             generateVisualAssets w (nameOf c) (sa_partNames sa) (generationMode state) ref
               (generationOptions state) \<and>
           parts (info c) = snd (scanStep w sa (images (info c)))))"
proof -
  have a: "\<not> isGenerating (status state) \<and> memoryHit w state query parentArg = None \<and>
    \<not> isOffline state \<and>
    analyzeStructure w (contextQueryOf w state query parentArg) (generationOptions state) = None
      \<longrightarrow> explore w state query parentArg ref =
            [Dispatch (SET_STATUS (analyzingStatus query)), Dispatch (SET_STATUS failedStatus)]"
    by (simp add: explore_def runPipeline_def)
  have f: "\<not> isGenerating (status state) \<and> memoryHit w state query parentArg = None \<and>
    \<not> isOffline state \<and>
    analyzeStructure w (contextQueryOf w state query parentArg) (generationOptions state)
      = Some sa \<and>
    truthyStr parentArg = Some pid \<and> history state = []
      \<longrightarrow> list_ex isErrorEffect (explore w state query parentArg ref)"
    by (simp add: explore_def runPipeline_def Let_def)
  have b: "list_ex isErrorEffect (explore w state query parentArg ref) \<longrightarrow>
      length (filter isErrorEffect (explore w state query parentArg ref)) = 1 \<and>
      isErrorEffect (last (explore w state query parentArg ref)) \<and>
      \<not> list_ex isCommitEffect (explore w state query parentArg ref) \<and>
      currentItem (stateAfterExplore w state query parentArg ref) = currentItem state \<and>
      history (stateAfterExplore w state query parentArg ref) = history state \<and>
      collection (stateAfterExplore w state query parentArg ref) = collection state \<and>
      stage (status (stateAfterExplore w state query parentArg ref)) = error"
    unfolding stateAfterExplore_def
    using error_trace_props [OF explore_trace, of w state query parentArg ref state] by blast
  have c: "\<not> isGenerating (status state) \<and> \<not> isOffline state \<and>
    identifyMainObject w base64 = None
      \<longrightarrow> exploreFromDataUrl w state base64 =
            [Dispatch (SET_STATUS identifyingStatus),
             Dispatch (SET_STATUS identifyFailedStatus)]"
    by (simp add: exploreFromDataUrl_def)
  have d: "list_ex isErrorEffect (exploreFromDataUrl w state base64) \<longrightarrow>
      length (filter isErrorEffect (exploreFromDataUrl w state base64)) = 1 \<and>
      isErrorEffect (last (exploreFromDataUrl w state base64)) \<and>
      \<not> list_ex isCommitEffect (exploreFromDataUrl w state base64) \<and>
      currentItem (stateAfterExploreFromDataUrl w state base64) = currentItem state \<and>
      history (stateAfterExploreFromDataUrl w state base64) = history state \<and>
      collection (stateAfterExploreFromDataUrl w state base64) = collection state \<and>
      stage (status (stateAfterExploreFromDataUrl w state base64)) = error"
    unfolding stateAfterExploreFromDataUrl_def
    using error_trace_props [OF exploreFromDataUrl_trace, of w state base64 state] by blast
  have e: "\<not> list_ex isErrorEffect (explore w state query parentArg ref) \<and>
      list_ex isCommitEffect (explore w state query parentArg ref) \<and>
      last (explore w state query parentArg ref) = Dispatch (SET_STATUS completeStatus) \<and>
      status (stateAfterExplore w state query parentArg ref) = completeStatus \<and>
      (\<exists>c h r. Dispatch (UPDATE_SESSION c h r) \<in> set (explore w state query parentArg ref) \<and>
           currentItem (stateAfterExplore w state query parentArg ref) = Some c \<and>
           history (stateAfterExplore w state query parentArg ref) = h \<and>
           images (info c) =
             generateVisualAssets w (nameOf c) (sa_partNames sa) (generationMode state) ref
               (generationOptions state) \<and>
           parts (info c) = snd (scanStep w sa (images (info c))))"
    if h: "\<not> isGenerating (status state) \<and> memoryHit w state query parentArg = None \<and>
      \<not> isOffline state \<and>
      analyzeStructure w (contextQueryOf w state query parentArg) (generationOptions state)
        = Some sa \<and>
      (truthyStr parentArg = None \<or> history state \<noteq> [])"
  proof -
    from h explore_completes [of state w query parentArg sa ref] obtain c hh r where
      run: "explore w state query parentArg ref =
           [Dispatch (SET_STATUS (analyzingStatus query)),
            Dispatch (SET_STATUS (renderingStatus (generationMode state) (sa_facts sa)))]
           @ fst (scanStep w sa (images (info c)))
           @ [Dispatch (UPDATE_SESSION c hh r), SaveExploration r,
              Dispatch (SET_STATUS completeStatus)]"
      and fields: "images (info c) =
           generateVisualAssets w (nameOf c) (sa_partNames sa) (generationMode state) ref
             (generationOptions state)"
        "parts (info c) = snd (scanStep w sa (images (info c)))"
      and props: "\<not> list_ex isErrorEffect (explore w state query parentArg ref)"
        "list_ex isCommitEffect (explore w state query parentArg ref)"
        "last (explore w state query parentArg ref) = Dispatch (SET_STATUS completeStatus)"
      and after: "currentItem (stateAfterExplore w state query parentArg ref) = Some c"
        "history (stateAfterExplore w state query parentArg ref) = hh"
        "status (stateAfterExplore w state query parentArg ref) = completeStatus"
      by blast
    have mem: "Dispatch (UPDATE_SESSION c hh r) \<in> set (explore w state query parentArg ref)"
      by (simp add: run)
    from mem fields props after show ?thesis by blast
  qed
  show ?thesis
    using a f b c d e by blast
qed

theorem fatal_failure_commits_nothing_witness:
  "\<not> isGenerating (status stateAtCar) \<and>
   memoryHit worldAnalysisFails stateAtCar ''Door'' (Some ''1'') = None \<and>
   \<not> isOffline stateAtCar \<and>
   analyzeStructure worldAnalysisFails
     (contextQueryOf worldAnalysisFails stateAtCar ''Door'' (Some ''1''))
     (generationOptions stateAtCar) = None \<and>
   explore worldAnalysisFails stateAtCar ''Door'' (Some ''1'') None =
     [Dispatch (SET_STATUS (analyzingStatus ''Door'')), Dispatch (SET_STATUS failedStatus)] \<and>
   list_ex isErrorEffect (explore worldAnalysisFails stateAtCar ''Door'' (Some ''1'') None) \<and>
   currentItem (stateAfterExplore worldAnalysisFails stateAtCar ''Door'' (Some ''1'') None)
     = currentItem stateAtCar \<and>
   history (stateAfterExplore worldAnalysisFails stateAtCar ''Door'' (Some ''1'') None)
     = history stateAtCar \<and>
   collection (stateAfterExplore worldAnalysisFails stateAtCar ''Door'' (Some ''1'') None)
     = collection stateAtCar \<and>
   stage (status (stateAfterExplore worldAnalysisFails stateAtCar ''Door'' (Some ''1'') None))
     = error \<and>
   identifyMainObject worldNoKey ''data:image/png;base64,QUJD'' = None \<and>
   exploreFromDataUrl worldNoKey stateAtCar ''data:image/png;base64,QUJD'' =
     [Dispatch (SET_STATUS identifyingStatus), Dispatch (SET_STATUS identifyFailedStatus)] \<and>
   history (stateAfterExploreFromDataUrl worldNoKey stateAtCar ''data:image/png;base64,QUJD'')
     = history stateAtCar \<and>
   \<not> isGenerating (status stateNoHistory) \<and> \<not> isOffline stateNoHistory \<and>
   memoryHit worldAllOk stateNoHistory ''Seed'' (Some ''1'') = None \<and>
   analyzeStructure worldAllOk (contextQueryOf worldAllOk stateNoHistory ''Seed'' (Some ''1''))
     (generationOptions stateNoHistory) = Some sampleStructure \<and>
   truthyStr (Some ''1'') = Some ''1'' \<and> history stateNoHistory = [] \<and>
   list_ex isErrorEffect (explore worldAllOk stateNoHistory ''Seed'' (Some ''1'') None) \<and>
   collection (stateAfterExplore worldAllOk stateNoHistory ''Seed'' (Some ''1'') None)
     = collection stateNoHistory \<and>
   memoryHit worldNoImages stateNoHistory ''Avocado'' None = None \<and>
   analyzeStructure worldNoImages (contextQueryOf worldNoImages stateNoHistory ''Avocado'' None)
     (generationOptions stateNoHistory) = Some sampleStructure \<and>
   truthyStr None = None \<and>
   generateVisualAssets worldNoImages ''Avocado Fruit'' [''Skin'', ''Seed''] full None
     (generationOptions stateNoHistory) = None \<and>
   \<not> list_ex isErrorEffect (explore worldNoImages stateNoHistory ''Avocado'' None None) \<and>
   list_ex isCommitEffect (explore worldNoImages stateNoHistory ''Avocado'' None None) \<and>
   status (stateAfterExplore worldNoImages stateNoHistory ''Avocado'' None None)
     = completeStatus"
proof -
  have st: "\<not> isGenerating (status stateAtCar)" "\<not> isOffline stateAtCar"
    by (simp_all add: sample_defs)
  have miss: "memoryHit worldAnalysisFails stateAtCar ''Door'' (Some ''1'') = None"
    by (simp add: memoryHit_def nameMatches_def truthyStr_def world_defs asciiLower_def
        sample_defs)
  have fails: "analyzeStructure worldAnalysisFails
      (contextQueryOf worldAnalysisFails stateAtCar ''Door'' (Some ''1''))
      (generationOptions stateAtCar) = None"
    by (simp add: analyzeStructure_def worldAnalysisFails_def worldAllOk_def)
  have noid: "identifyMainObject worldNoKey ''data:image/png;base64,QUJD'' = None"
    by (simp add: identifyMainObject_def worldNoKey_def worldAllOk_def)
  have st2: "\<not> isGenerating (status stateNoHistory)" "\<not> isOffline stateNoHistory"
    "history stateNoHistory = []" "truthyStr (Some ''1'') = Some ''1''" "truthyStr None = None"
    by (simp_all add: stateNoHistory_def truthyStr_def sample_defs)
  have miss2: "memoryHit worldAllOk stateNoHistory ''Seed'' (Some ''1'') = None"
    "memoryHit worldNoImages stateNoHistory ''Avocado'' None = None"
    by (simp_all add: memoryHit_def truthyStr_def stateNoHistory_def sample_defs)
  have an2: "analyzeStructure worldAllOk
      (contextQueryOf worldAllOk stateNoHistory ''Seed'' (Some ''1''))
      (generationOptions stateNoHistory) = Some sampleStructure"
    "analyzeStructure worldNoImages (contextQueryOf worldNoImages stateNoHistory ''Avocado'' None)
      (generationOptions stateNoHistory) = Some sampleStructure"
    by (simp_all add: analyzeStructure_def contextQueryOf_def orElse_def truthyStr_def
        sampleStructure_def stateNoHistory_def showNat.simps sample_defs)
  have nosyn: "generateVisualAssets worldNoImages ''Avocado Fruit'' [''Skin'', ''Seed''] full None
      (generationOptions stateNoHistory) = None"
    by (simp add: generateVisualAssets_full generateImage_def worldNoImages_def)
  note inst = fatal_failure_commits_nothing [of stateAtCar worldAnalysisFails "''Door''"
      "Some ''1''" None sampleStructure "''1''" "''data:image/png;base64,QUJD''"]
  note inst2 = fatal_failure_commits_nothing [of stateAtCar worldNoKey "''Door''"
      "Some ''1''" None sampleStructure "''1''" "''data:image/png;base64,QUJD''"]
  note inst3 = fatal_failure_commits_nothing [of stateNoHistory worldAllOk "''Seed''"
      "Some ''1''" None sampleStructure "''1''" "''data:image/png;base64,QUJD''"]
  note inst4 = fatal_failure_commits_nothing [of stateNoHistory worldNoImages "''Avocado''"
      None None sampleStructure "''1''" "''data:image/png;base64,QUJD''"]
  from inst st miss fails have run:
    "explore worldAnalysisFails stateAtCar ''Door'' (Some ''1'') None =
       [Dispatch (SET_STATUS (analyzingStatus ''Door'')), Dispatch (SET_STATUS failedStatus)]"
    by blast
  then have err: "list_ex isErrorEffect
      (explore worldAnalysisFails stateAtCar ''Door'' (Some ''1'') None)"
    by simp
  from inst2 st noid have run2:
    "exploreFromDataUrl worldNoKey stateAtCar ''data:image/png;base64,QUJD'' =
       [Dispatch (SET_STATUS identifyingStatus), Dispatch (SET_STATUS identifyFailedStatus)]"
    by blast
  then have err2: "list_ex isErrorEffect
      (exploreFromDataUrl worldNoKey stateAtCar ''data:image/png;base64,QUJD'')"
    by simp
  from inst3 st2 miss2(1) an2(1) have err3:
    "list_ex isErrorEffect (explore worldAllOk stateNoHistory ''Seed'' (Some ''1'') None)"
    by blast
  from inst4 st2 miss2(2) an2(2) have ok4:
    "\<not> list_ex isErrorEffect (explore worldNoImages stateNoHistory ''Avocado'' None None)"
    "list_ex isCommitEffect (explore worldNoImages stateNoHistory ''Avocado'' None None)"
    "status (stateAfterExplore worldNoImages stateNoHistory ''Avocado'' None None)
       = completeStatus"
    by blast+
  from inst err inst2 err2 inst3 err3 ok4 st miss fails noid run run2 st2 miss2 an2 nosyn
  show ?thesis by blast
qed

text \<open>
  Claim C4 as stated fails for a stage whose failure is absorbed: in full mode with no
  image generated, the synthesis step yields nothing, yet the run exposes no error status,
  ends with status complete, and commits the item to the current item, the history and
  the collection.
\<close>

theorem absorbed_stage_failure_commits_counterexample:
  "generateVisualAssets worldNoImages ''Avocado Fruit'' [''Skin'', ''Seed''] full None
     (generationOptions initialState) = None \<and>
   collection initialState = [] \<and> currentItem initialState = None \<and>
   stage (status (stateAfterExplore worldNoImages initialState ''Avocado'' None None))
     = complete \<and>
   \<not> list_ex isErrorEffect (explore worldNoImages initialState ''Avocado'' None None) \<and>
   currentItem (stateAfterExplore worldNoImages initialState ''Avocado'' None None)
     = Some bareItem \<and>
   history (stateAfterExplore worldNoImages initialState ''Avocado'' None None) = [bareItem] \<and>
   collection (stateAfterExplore worldNoImages initialState ''Avocado'' None None) = [bareItem]"
  by (simp add: run_defs2 sample_defs world_defs applyEffects_def)

end
